theory Spec2Isabelle
  imports Complex_Main "HOL-Library.Word"
begin

unbundle bit_operations_syntax

section \<open>gl1.js: an instanced 2D sprite renderer\<close>

text \<open>
  The development embeds \<^verbatim>\<open>src/gl1.js\<close>: the object \<^verbatim>\<open>gl1\<close> with its per-frame
  command buffer (\<^verbatim>\<open>drawImage\<close>), the flush (\<^verbatim>\<open>drawEverything\<close>), \<^verbatim>\<open>resize\<close>,
  \<^verbatim>\<open>setup\<close>, \<^verbatim>\<open>loadTexFromJsImage\<close> and the arithmetic of the vertex shader.

  Conventions of the embedding.
  \<^item> The \<^verbatim>\<open>ArrayBuffer\<close> is a list of bytes. The three typed-array views
    \<^verbatim>\<open>positions\<close> (Int16Array), \<^verbatim>\<open>rotations\<close> (Float32Array) and \<^verbatim>\<open>rgbas\<close>
    (Uint32Array) alias it; element \<open>j\<close> of a view of \<open>w\<close>-byte elements is the bytes
    \<open>w * j ..< w * j + w\<close>, in little-endian order (typed arrays use the platform's byte
    order, which is little-endian on the platforms WebGL runs on).
  \<^item> A store through a typed array at an index outside the view is ignored, as
    ECMAScript specifies; nothing is raised.
  \<^item> A JavaScript argument is a value of \<open>jsval\<close>: omitted (\<^verbatim>\<open>undefined\<close>), \<^verbatim>\<open>NaN\<close>,
    an infinity, or a finite number. Finite numbers are embedded in the reals (every
    finite double is a real number), so a statement for all reals covers all doubles.
  \<^item> The WebGL context is an external collaborator: it is modelled by the log of the
    calls the code issues to it, with their arguments, in order.
  \<^item> The shader is GLSL text inside \<^verbatim>\<open>setup\<close>; its arithmetic is embedded over the
    reals, without the rounding of the GPU's floating point.
\<close>

subsection \<open>JavaScript values and the conversions of typed-array stores\<close>

datatype jsval = Undefined | NaN | PosInf | NegInf | Num real

text \<open>Truthiness of a value: \<^verbatim>\<open>undefined\<close>, \<^verbatim>\<open>NaN\<close> and zero are falsy.\<close>

fun truthy :: "jsval \<Rightarrow> bool" where
  "truthy Undefined = False"
| "truthy NaN = False"
| "truthy PosInf = True"
| "truthy NegInf = True"
| "truthy (Num x) = (x \<noteq> 0)"

text \<open>The operator \<^verbatim>\<open>a || b\<close>.\<close>

definition js_or :: "jsval \<Rightarrow> jsval \<Rightarrow> jsval" where
  "js_or a b = (if truthy a then a else b)"

text \<open>Truncation towards zero, the first step of \<^verbatim>\<open>ToInt16\<close> and \<^verbatim>\<open>ToUint32\<close>.\<close>

definition js_trunc :: "real \<Rightarrow> int" where
  "js_trunc x = (if x < 0 then - \<lfloor>- x\<rfloor> else \<lfloor>x\<rfloor>)"

text \<open>
  \<^verbatim>\<open>ToInt16\<close>: \<^verbatim>\<open>undefined\<close> (which \<^verbatim>\<open>ToNumber\<close> maps to \<^verbatim>\<open>NaN\<close>), \<^verbatim>\<open>NaN\<close> and the
  infinities give 0; a finite number is truncated and reduced modulo \<open>2 ^ 16\<close>.
\<close>

fun toInt16 :: "jsval \<Rightarrow> 16 word" where
  "toInt16 (Num x) = word_of_int (js_trunc x)"
| "toInt16 _ = 0"

text \<open>\<^verbatim>\<open>ToUint32\<close>: the same with modulus \<open>2 ^ 32\<close>.\<close>

fun toUint32 :: "jsval \<Rightarrow> 32 word" where
  "toUint32 (Num x) = word_of_int (js_trunc x)"
| "toUint32 _ = 0"

text \<open>
  The store into a \<^verbatim>\<open>Float32Array\<close> rounds the number to IEEE 754 binary32 (to nearest,
  ties to even) and writes its 32 bits. For a magnitude \<open>a > 0\<close> with binary exponent
  \<open>e\<close> (at least \<open>-126\<close>, where the subnormal numbers start) and 24-bit significand
  \<open>r\<close>, the bits below the sign are \<open>(e + 126) * 2 ^ 23 + r\<close>: the hidden bit of
  \<open>r\<close> carries into the exponent field, also when rounding reaches \<open>2 ^ 24\<close>; a result
  at or beyond the exponent field 255 is the infinity.
\<close>

definition roundHalfEven :: "real \<Rightarrow> int" where
  "roundHalfEven x =
     (let f = \<lfloor>x\<rfloor>; d = x - of_int f
      in if d < 1 / 2 then f
         else if 1 / 2 < d then f + 1
         else if even f then f else f + 1)"

definition float32_magnitude :: "real \<Rightarrow> int" where
  "float32_magnitude a =
     (if a = 0 then 0
      else let e = max \<lfloor>log 2 a\<rfloor> (- 126);
               r = roundHalfEven (a / 2 powi (e - 23))
           in min ((e + 126) * 2 ^ 23 + r) 0x7F800000)"

definition float32_bits :: "real \<Rightarrow> 32 word" where
  "float32_bits x =
     word_of_int (float32_magnitude \<bar>x\<bar>) OR (if x < 0 then 0x80000000 else 0)"

fun toFloat32 :: "jsval \<Rightarrow> 32 word" where
  "toFloat32 (Num x) = float32_bits x"
| "toFloat32 PosInf = 0x7F800000"
| "toFloat32 NegInf = 0xFF800000"
| "toFloat32 _ = 0x7FC00000"

subsection \<open>The array buffer and its three views\<close>

type_synonym byte = "8 word"

definition le16 :: "16 word \<Rightarrow> byte list" where
  "le16 w = [ucast w, ucast (drop_bit 8 w)]"

definition le32 :: "32 word \<Rightarrow> byte list" where
  "le32 w = [ucast w, ucast (drop_bit 8 w), ucast (drop_bit 16 w), ucast (drop_bit 24 w)]"

definition from_le16 :: "byte list \<Rightarrow> 16 word" where
  "from_le16 bs = ucast (bs ! 0) OR push_bit 8 (ucast (bs ! 1))"

definition from_le32 :: "byte list \<Rightarrow> 32 word" where
  "from_le32 bs =
     ucast (bs ! 0) OR push_bit 8 (ucast (bs ! 1)) OR push_bit 16 (ucast (bs ! 2))
       OR push_bit 24 (ucast (bs ! 3))"

text \<open>Writing the bytes \<open>bs\<close> into the buffer from byte offset \<open>off\<close> on.\<close>

fun store_bytes :: "nat \<Rightarrow> byte list \<Rightarrow> byte list \<Rightarrow> byte list" where
  "store_bytes off [] buf = buf"
| "store_bytes off (b # bs) buf = store_bytes (Suc off) bs (buf[off := b])"

text \<open>
  \<^verbatim>\<open>view[j] = v\<close> for the three views. The length of a view over the whole buffer is
  the buffer's byte length divided by the element size; a store at an index that is
  not below it does nothing.
\<close>

definition setInt16 :: "nat \<Rightarrow> jsval \<Rightarrow> byte list \<Rightarrow> byte list" where
  "setInt16 j v buf =
     (if j < length buf div 2 then store_bytes (2 * j) (le16 (toInt16 v)) buf else buf)"

definition setUint32 :: "nat \<Rightarrow> jsval \<Rightarrow> byte list \<Rightarrow> byte list" where
  "setUint32 j v buf =
     (if j < length buf div 4 then store_bytes (4 * j) (le32 (toUint32 v)) buf else buf)"

definition setFloat32 :: "nat \<Rightarrow> jsval \<Rightarrow> byte list \<Rightarrow> byte list" where
  "setFloat32 j v buf =
     (if j < length buf div 4 then store_bytes (4 * j) (le32 (toFloat32 v)) buf else buf)"

text \<open>Reading element \<open>j\<close> of the Int16 view and of the Uint32 view.\<close>

definition getInt16 :: "nat \<Rightarrow> byte list \<Rightarrow> 16 word" where
  "getInt16 j buf = from_le16 (take 2 (drop (2 * j) buf))"

definition getUint32 :: "nat \<Rightarrow> byte list \<Rightarrow> 32 word" where
  "getUint32 j buf = from_le32 (take 4 (drop (4 * j) buf))"

text \<open>
  \<^verbatim>\<open>rgbas.subarray(0, end)\<close>: the end is clamped to the length of the view; the new
  view covers the bytes of the elements \<open>0 ..< min end length\<close>.
\<close>

definition subarray32 :: "nat \<Rightarrow> byte list \<Rightarrow> byte list" where
  "subarray32 end buf = take (4 * min end (length buf div 4)) buf"

subsection \<open>The WebGL context as a log of calls\<close>

datatype glenum =
    COLOR_BUFFER_BIT | ARRAY_BUFFER | ELEMENT_ARRAY_BUFFER | TRIANGLES
  | UNSIGNED_BYTE | SHORT | FLOAT | STATIC_DRAW | DYNAMIC_DRAW
  | VERTEX_SHADER | FRAGMENT_SHADER | SRC_ALPHA | ONE_MINUS_SRC_ALPHA | BLEND | DEPTH_TEST
  | TEXTURE_2D | RGBA | TEXTURE0 | TEXTURE_MAG_FILTER | TEXTURE_MIN_FILTER | NEAREST

text \<open>A canvas or an image: what the code reads of it is its pixel size.\<close>

record htmlElement =
  width :: nat
  height :: nat

datatype bufdata = Uint8Data "byte list" | Float32Data "real list" | BufferBytes "byte list"

text \<open>
  One constructor for each call the code makes. Attribute and uniform locations are
  named by the string they were looked up with; \<open>BindNewBuffer t\<close> is
  \<^verbatim>\<open>gl.bindBuffer(t, gl.createBuffer())\<close> and \<open>BindNewTexture t\<close> the same for textures;
  the shaders are named by their kind.
\<close>

datatype glcall =
    GetExtension string
  | ClearColor real real real real
  | CreateShader glenum
  | ShaderSource glenum
  | CompileShader glenum
  | CreateProgram
  | AttachShader glenum
  | LinkProgram
  | UseProgram
  | BlendFunc glenum glenum
  | Enable glenum
  | Disable glenum
  | BindNewBuffer glenum
  | BufferData glenum bufdata glenum
  | EnableVertexAttribArray string
  | VertexAttribPointer string nat glenum bool nat nat
  | VertexAttribDivisorANGLE string nat
  | Clear glenum
  | BufferSubData glenum nat "byte list"
  | DrawElementsInstancedANGLE glenum nat glenum nat nat
  | Viewport nat nat nat nat
  | Uniform1f string real
  | Uniform2f string real real
  | BindNewTexture glenum
  | TexImage2D glenum nat glenum glenum glenum htmlElement
  | GenerateMipmap glenum
  | ActiveTexture glenum
  | TexParameteri glenum glenum glenum

subsection \<open>The renderer object\<close>

text \<open>
  The fields of \<^verbatim>\<open>gl1\<close>. \<open>maxDraws\<close> and \<open>draws\<close> are in the object literal; the
  others are \<^verbatim>\<open>undefined\<close> (\<open>None\<close>) until \<^verbatim>\<open>setup\<close> or \<^verbatim>\<open>loadTexFromJsImage\<close>
  assigns them. \<open>gl\<close> stands for the context with the extension and the shader
  program, which \<^verbatim>\<open>setup\<close> assigns together: it holds the log of the calls made so
  far. \<open>arrayBuffer\<close> stands for the three views \<^verbatim>\<open>positions\<close>, \<^verbatim>\<open>rotations\<close> and
  \<^verbatim>\<open>rgbas\<close> with the buffer they share.
\<close>

record gl1 =
  maxDraws :: nat
  draws :: nat
  canvas :: "htmlElement option"
  gl :: "glcall list option"
  arrayBuffer :: "byte list option"
  jsImage :: "htmlElement option"
  texSizeX :: "nat option"
  texSizeY :: "nat option"

text \<open>Reading a property of \<^verbatim>\<open>undefined\<close> throws; the code raises nothing else.\<close>

datatype error = TypeError

definition gl1_object :: gl1 where
  "gl1_object =
     \<lparr>maxDraws = 10000, draws = 0, canvas = None, gl = None, arrayBuffer = None,
      jsImage = None, texSizeX = None, texSizeY = None\<rparr>"

subsection \<open>drawImage and drawRect\<close>

definition drawImage ::
  "jsval \<Rightarrow> jsval \<Rightarrow> jsval \<Rightarrow> jsval \<Rightarrow> jsval \<Rightarrow> jsval \<Rightarrow> jsval \<Rightarrow> jsval \<Rightarrow> jsval \<Rightarrow> jsval \<Rightarrow>
     gl1 \<Rightarrow> error + gl1" where
  "drawImage texPartX texPartY texPartSizeX texPartSizeY drawX drawY sizeX sizeY rgba rotation s =
     (case arrayBuffer s of
        None \<Rightarrow> Inl TypeError
      | Some buf \<Rightarrow>
          let i = draws s * 6;
              buf = setUint32 (i + 4) (js_or rgba (Num 0xFFFFFF7F)) buf;
              buf = setFloat32 (i + 5) (js_or rotation (Num 0)) buf;
              i = i * 2;
              buf = setInt16 i drawX buf;
              buf = setInt16 (i + 1) drawY buf;
              buf = setInt16 (i + 2) sizeX buf;
              buf = setInt16 (i + 3) sizeY buf;
              buf = setInt16 (i + 4) texPartX buf;
              buf = setInt16 (i + 5) texPartY buf;
              buf = setInt16 (i + 6) texPartSizeX buf;
              buf = setInt16 (i + 7) texPartSizeY buf
          in Inr (s\<lparr>arrayBuffer := Some buf, draws := draws s + 1\<rparr>))"

definition drawRect ::
  "jsval \<Rightarrow> jsval \<Rightarrow> jsval \<Rightarrow> jsval \<Rightarrow> jsval \<Rightarrow> jsval \<Rightarrow> gl1 \<Rightarrow> error + gl1" where
  "drawRect drawX drawY sizeX sizeY rgba rotation s =
     drawImage (Num 0) (Num 0) (Num 1) (Num 1) drawX drawY sizeX sizeY rgba rotation s"

subsection \<open>drawEverything\<close>

definition drawEverything :: "gl1 \<Rightarrow> error + gl1" where
  "drawEverything s =
     (case gl s of
        None \<Rightarrow> Inl TypeError
      | Some calls \<Rightarrow>
          (case arrayBuffer s of
             None \<Rightarrow> Inl TypeError
           | Some buf \<Rightarrow>
               Inr (s\<lparr>gl := Some (calls @
                        [Clear COLOR_BUFFER_BIT,
                         BufferSubData ARRAY_BUFFER 0 (subarray32 (draws s * 6) buf),
                         DrawElementsInstancedANGLE TRIANGLES 6 UNSIGNED_BYTE 0 (draws s)]),
                      draws := 0\<rparr>)))"

subsection \<open>resize\<close>

definition resize :: "gl1 \<Rightarrow> error + gl1" where
  "resize s =
     (case gl s of
        None \<Rightarrow> Inl TypeError
      | Some calls \<Rightarrow>
          (case canvas s of
             None \<Rightarrow> Inl TypeError
           | Some c \<Rightarrow>
               Inr (s\<lparr>gl := Some (calls @
                        [Viewport 0 0 (width c) (height c),
                         Uniform1f ''uCanvasSizeX'' (real (width c) / 2),
                         Uniform1f ''uCanvasSizeY'' (real (height c) / 2)])\<rparr>)))"

subsection \<open>setup\<close>

text \<open>The sizes \<^verbatim>\<open>setup\<close> computes the record length from.\<close>

definition shortsPerImagePosition :: nat where "shortsPerImagePosition = 2"
definition shortsPerImageSize :: nat where "shortsPerImageSize = 2"
definition shortsPerImageTexPos :: nat where "shortsPerImageTexPos = 4"
definition bytesPerImageRgba :: nat where "bytesPerImageRgba = 4"
definition floatsPerImageRotation :: nat where "floatsPerImageRotation = 1"

definition bytesPerImage :: nat where
  "bytesPerImage =
     shortsPerImagePosition * 2 + shortsPerImageSize * 2 + shortsPerImageTexPos * 2
       + bytesPerImageRgba + floatsPerImageRotation * 4"

text \<open>
  The local function \<^verbatim>\<open>setupAttribute(name, dataType, amount)\<close>. It closes over
  \<^verbatim>\<open>byteOffset\<close> and the context: both are threaded through as a pair.
\<close>

definition setupAttribute ::
  "string \<Rightarrow> glenum \<Rightarrow> nat \<Rightarrow> nat \<times> glcall list \<Rightarrow> nat \<times> glcall list" where
  "setupAttribute name dataType amount st =
     (case st of (byteOffset, calls) \<Rightarrow>
        let calls = calls @
              [EnableVertexAttribArray name,
               VertexAttribPointer name amount dataType False bytesPerImage byteOffset,
               VertexAttribDivisorANGLE name 1];
            amount = (if dataType = SHORT then amount * 2 else amount);
            amount = (if dataType = FLOAT then amount * 4 else amount)
        in (byteOffset + amount, calls))"

text \<open>The two constant arrays: the indices of the two triangles and the corner multipliers.\<close>

definition indexData :: "byte list" where
  "indexData = [0, 1, 2, 2, 1, 3]"

definition sizeMultData :: "real list" where
  "sizeMultData = [0, 0, 0, 1, 1, 0, 1, 1]"

text \<open>
  The calls of \<^verbatim>\<open>setup\<close> before the per-image attributes, in the order of the source.
  \<^verbatim>\<open>buf\<close> is the new array buffer. The green of the clear colour is the literal
  \<^verbatim>\<open>0.7\<close>, that is the double nearest to it, \<open>3152519739159347 / 2 ^ 52\<close>.
\<close>

definition setupCalls :: "byte list \<Rightarrow> glcall list" where
  "setupCalls buf =
     [GetExtension ''ANGLE_instanced_arrays'',
      ClearColor (1 / 2) (3152519739159347 / 4503599627370496) 1 1,
      CreateShader VERTEX_SHADER, ShaderSource VERTEX_SHADER, CompileShader VERTEX_SHADER,
      CreateShader FRAGMENT_SHADER, ShaderSource FRAGMENT_SHADER, CompileShader FRAGMENT_SHADER,
      CreateProgram, AttachShader VERTEX_SHADER, AttachShader FRAGMENT_SHADER,
      LinkProgram, UseProgram,
      BlendFunc SRC_ALPHA ONE_MINUS_SRC_ALPHA, Enable BLEND, Disable DEPTH_TEST,
      BindNewBuffer ELEMENT_ARRAY_BUFFER,
      BufferData ELEMENT_ARRAY_BUFFER (Uint8Data indexData) STATIC_DRAW,
      BindNewBuffer ARRAY_BUFFER,
      BufferData ARRAY_BUFFER (Float32Data sizeMultData) STATIC_DRAW,
      EnableVertexAttribArray ''aSizeMult'',
      VertexAttribPointer ''aSizeMult'' 2 FLOAT False 0 0,
      BindNewBuffer ARRAY_BUFFER,
      BufferData ARRAY_BUFFER (BufferBytes buf) DYNAMIC_DRAW]"

text \<open>The five calls of \<^verbatim>\<open>setupAttribute\<close>, starting from \<^verbatim>\<open>byteOffset = 0\<close>.\<close>

definition setupAttributes :: "glcall list \<Rightarrow> nat \<times> glcall list" where
  "setupAttributes calls =
     setupAttribute ''aRotation'' FLOAT floatsPerImageRotation
      (setupAttribute ''aRgba'' UNSIGNED_BYTE bytesPerImageRgba
        (setupAttribute ''aTexPos'' SHORT shortsPerImageTexPos
          (setupAttribute ''aSize'' SHORT shortsPerImageSize
            (setupAttribute ''aPos'' SHORT shortsPerImagePosition (0, calls)))))"

text \<open>
  \<^verbatim>\<open>setup(canvas, texFileName)\<close>, for a canvas that gives a context with the
  extension. A new \<^verbatim>\<open>ArrayBuffer\<close> is filled with zeros. The image load that
  \<^verbatim>\<open>texFileName\<close> starts completes later, in a callback that calls
  \<^verbatim>\<open>loadTexFromJsImage\<close>; the callback is not part of \<open>setup_gl\<close>
  (the name \<open>setup\<close> is taken in Isabelle).
\<close>

definition setup_gl :: "htmlElement \<Rightarrow> gl1 \<Rightarrow> gl1" where
  "setup_gl c s =
     (let buf = replicate (maxDraws s * bytesPerImage) (0 :: byte)
      in s\<lparr>canvas := Some c,
            gl := Some (snd (setupAttributes (setupCalls buf))),
            arrayBuffer := Some buf\<rparr>)"

subsection \<open>loadTexFromJsImage\<close>

definition loadTexFromJsImage :: "htmlElement \<Rightarrow> gl1 \<Rightarrow> error + gl1" where
  "loadTexFromJsImage img s =
     (case gl s of
        None \<Rightarrow> Inl TypeError
      | Some calls \<Rightarrow>
          resize (s\<lparr>jsImage := Some img,
                    gl := Some (calls @
                      [BindNewTexture TEXTURE_2D,
                       TexImage2D TEXTURE_2D 0 RGBA RGBA UNSIGNED_BYTE img,
                       GenerateMipmap TEXTURE_2D,
                       ActiveTexture TEXTURE0,
                       TexParameteri TEXTURE_2D TEXTURE_MAG_FILTER NEAREST,
                       TexParameteri TEXTURE_2D TEXTURE_MIN_FILTER NEAREST,
                       Uniform2f ''uTexSize'' (real (width img)) (real (height img))]),
                    texSizeX := Some (width img),
                    texSizeY := Some (height img)\<rparr>))"

subsection \<open>The vertex shader\<close>

text \<open>
  The inputs of one run of the vertex shader: the corner multiplier of the vertex and
  the attributes of the instance. Vectors are tuples. A \<^verbatim>\<open>SHORT\<close> or
  \<^verbatim>\<open>UNSIGNED_BYTE\<close> attribute that is not normalized arrives as the number the
  integer denotes.
\<close>

record attribs =
  aSizeMult :: "real \<times> real"
  aPos :: "real \<times> real"
  aSize :: "real \<times> real"
  aTexPos :: "real \<times> real \<times> real \<times> real"
  aRgba :: "real \<times> real \<times> real \<times> real"
  aRotation :: real

record uniforms =
  uCanvasSizeX :: real
  uCanvasSizeY :: real
  uTexSize :: "real \<times> real"

record vertOut =
  gl_Position :: "real \<times> real \<times> real \<times> real"
  fragTexturePos :: "real \<times> real"
  fragAbgr :: "real \<times> real \<times> real \<times> real"

text \<open>The local \<^verbatim>\<open>drawPos\<close> of \<^verbatim>\<open>main\<close>: the corner's position on the screen, in pixels.\<close>

definition drawPos :: "attribs \<Rightarrow> real \<times> real" where
  "drawPos a =
     (case (aPos a, aSize a, aSizeMult a) of ((px, py), (sx, sy), (mx, my)) \<Rightarrow>
        if aRotation a \<noteq> 0 then
          let goX = cos (aRotation a);
              goY = sin (aRotation a);
              cornerPos = (sx * (mx - 1 / 2), sy * (my - 1 / 2))
          in (px + (goX * fst cornerPos - goY * snd cornerPos) + sx / 2,
              py + (goY * fst cornerPos + goX * snd cornerPos) + sy / 2)
        else (px + sx * mx, py + sy * my))"

text \<open>The tint that \<^verbatim>\<open>main\<close> assigns to \<^verbatim>\<open>fragAbgr\<close>, from \<^verbatim>\<open>aRgba\<close>.\<close>

definition tintOf :: "real \<times> real \<times> real \<times> real \<Rightarrow> real \<times> real \<times> real \<times> real" where
  "tintOf rgba =
     (case rgba of (x, y, z, w) \<Rightarrow>
        if x > 127 then
          let colorMult = 2 powr ((x - 127) / 16) / 255
          in (w * colorMult, z * colorMult, y * colorMult, 1)
        else (w / 255, z / 255, y / 255, x / 127))"

definition vertMain :: "uniforms \<Rightarrow> attribs \<Rightarrow> vertOut" where
  "vertMain u a =
     (case (drawPos a, aTexPos a, aSizeMult a, uTexSize u) of
        ((dx, dy), (tx, ty, tz, tw), (mx, my), (ux, uy)) \<Rightarrow>
          \<lparr>gl_Position = (dx / uCanvasSizeX u - 1, 1 - dy / uCanvasSizeY u, 0, 1),
           fragTexturePos = ((tx + tz * mx) / ux, (ty + tw * my) / uy),
           fragAbgr = tintOf (aRgba a)\<rparr>)"

text \<open>
  The four vertices of the quad: \<^verbatim>\<open>aSizeMult\<close> is read from \<open>sizeMultData\<close> two floats
  per vertex, tightly packed (\<^verbatim>\<open>vertexAttribPointer(location, 2, gl.FLOAT, false, 0, 0)\<close>).
\<close>

definition cornerMult :: "nat \<Rightarrow> real \<times> real" where
  "cornerMult v = (sizeMultData ! (2 * v), sizeMultData ! (2 * v + 1))"

definition cornerMults :: "(real \<times> real) list" where
  "cornerMults = map cornerMult [0, 1, 2, 3]"

text \<open>The screen positions of the four corners of one sprite.\<close>

definition corners :: "attribs \<Rightarrow> (real \<times> real) list" where
  "corners a = map (\<lambda>m. drawPos (a\<lparr>aSizeMult := m\<rparr>)) cornerMults"

subsection \<open>The wire layout of one record, in the specification's words\<close>

text \<open>
  The channels of a packed tint \<^verbatim>\<open>0xRRGGBBAA\<close> (the source's \<^verbatim>\<open>0x00FF007F\<close> is green,
  and alpha runs from 0 to 127): alpha is the lowest byte, red the highest.
\<close>

definition tintA :: "32 word \<Rightarrow> byte" where "tintA t = ucast t"
definition tintB :: "32 word \<Rightarrow> byte" where "tintB t = ucast (drop_bit 8 t)"
definition tintG :: "32 word \<Rightarrow> byte" where "tintG t = ucast (drop_bit 16 t)"
definition tintR :: "32 word \<Rightarrow> byte" where "tintR t = ucast (drop_bit 24 t)"

text \<open>
  The 24 bytes the specification's layout contract gives for one sprite: eight signed
  16-bit integers (draw position, draw size, texture rectangle), the four tint bytes
  in the order a, b, g, r, and the rotation as one 32-bit float.
\<close>

definition spec_record ::
  "16 word \<Rightarrow> 16 word \<Rightarrow> 16 word \<Rightarrow> 16 word \<Rightarrow> 16 word \<Rightarrow> 16 word \<Rightarrow> 16 word \<Rightarrow> 16 word \<Rightarrow>
     32 word \<Rightarrow> 32 word \<Rightarrow> byte list" where
  "spec_record drawPosX drawPosY drawSizeX drawSizeY texRectX texRectY texRectW texRectH
       tint rotationBits =
     le16 drawPosX @ le16 drawPosY @ le16 drawSizeX @ le16 drawSizeY
       @ le16 texRectX @ le16 texRectY @ le16 texRectW @ le16 texRectH
       @ [tintA tint, tintB tint, tintG tint, tintR tint]
       @ le32 rotationBits"

text \<open>The record that a call of \<^verbatim>\<open>drawImage\<close> with these arguments is expected to store.\<close>

definition recordOf ::
  "jsval \<Rightarrow> jsval \<Rightarrow> jsval \<Rightarrow> jsval \<Rightarrow> jsval \<Rightarrow> jsval \<Rightarrow> jsval \<Rightarrow> jsval \<Rightarrow> jsval \<Rightarrow> jsval \<Rightarrow>
     byte list" where
  "recordOf texPartX texPartY texPartSizeX texPartSizeY drawX drawY sizeX sizeY rgba rotation =
     spec_record (toInt16 drawX) (toInt16 drawY) (toInt16 sizeX) (toInt16 sizeY)
       (toInt16 texPartX) (toInt16 texPartY) (toInt16 texPartSizeX) (toInt16 texPartSizeY)
       (toUint32 (js_or rgba (Num 0xFFFFFF7F))) (toFloat32 (js_or rotation (Num 0)))"

text \<open>The bytes of the record slot \<open>k\<close> of a buffer.\<close>

definition slot :: "nat \<Rightarrow> byte list \<Rightarrow> byte list" where
  "slot k buf = take 24 (drop (k * 24) buf)"

subsection \<open>Reading a state and a log\<close>

text \<open>Running one operation after another; the first error ends the run.\<close>

definition andThen :: "error + gl1 \<Rightarrow> (gl1 \<Rightarrow> error + gl1) \<Rightarrow> error + gl1" where
  "andThen r f = (case r of Inl e \<Rightarrow> Inl e | Inr s \<Rightarrow> f s)"

definition glCalls :: "gl1 \<Rightarrow> glcall list" where
  "glCalls s = (case gl s of None \<Rightarrow> [] | Some calls \<Rightarrow> calls)"

definition bufferOf :: "gl1 \<Rightarrow> byte list" where
  "bufferOf s = (case arrayBuffer s of None \<Rightarrow> [] | Some buf \<Rightarrow> buf)"

text \<open>The attribute pointers declared in a log: name, amount, type, stride, offset.\<close>

fun attribPointers :: "glcall list \<Rightarrow> (string \<times> nat \<times> glenum \<times> nat \<times> nat) list" where
  "attribPointers [] = []"
| "attribPointers (VertexAttribPointer name amount dataType normalized stride offset # cs) =
     (name, amount, dataType, stride, offset) # attribPointers cs"
| "attribPointers (c # cs) = attribPointers cs"

text \<open>The byte lengths of the \<^verbatim>\<open>bufferSubData\<close> uploads in a log.\<close>

fun uploadSizes :: "glcall list \<Rightarrow> nat list" where
  "uploadSizes [] = []"
| "uploadSizes (BufferSubData target offset bytes # cs) = length bytes # uploadSizes cs"
| "uploadSizes (c # cs) = uploadSizes cs"

text \<open>
  The calls in a log that create GPU storage or upload an image: \<^verbatim>\<open>bufferData\<close> and
  \<^verbatim>\<open>texImage2D\<close>.
\<close>

fun allocations :: "glcall list \<Rightarrow> glcall list" where
  "allocations [] = []"
| "allocations (BufferData target bytes usage # cs) =
     BufferData target bytes usage # allocations cs"
| "allocations (TexImage2D target level ifmt fmt ty img # cs) =
     TexImage2D target level ifmt fmt ty img # allocations cs"
| "allocations (c # cs) = allocations cs"

text \<open>The value a float uniform holds after a log: the last call for its name sets it.\<close>

fun uniform1f :: "string \<Rightarrow> glcall list \<Rightarrow> real option" where
  "uniform1f name [] = None"
| "uniform1f name (Uniform1f n v # cs) =
     (case uniform1f name cs of Some v' \<Rightarrow> Some v' | None \<Rightarrow> if n = name then Some v else None)"
| "uniform1f name (c # cs) = uniform1f name cs"

fun viewportOf :: "glcall list \<Rightarrow> (nat \<times> nat \<times> nat \<times> nat) option" where
  "viewportOf [] = None"
| "viewportOf (Viewport x y w h # cs) =
     (case viewportOf cs of Some v \<Rightarrow> Some v | None \<Rightarrow> Some (x, y, w, h))"
| "viewportOf (c # cs) = viewportOf cs"

definition scaleUniforms :: "gl1 \<Rightarrow> real option \<times> real option" where
  "scaleUniforms s =
     (uniform1f ''uCanvasSizeX'' (glCalls s), uniform1f ''uCanvasSizeY'' (glCalls s))"

text \<open>The centre of a list of points: the mean of the coordinates.\<close>

definition centre :: "(real \<times> real) list \<Rightarrow> real \<times> real" where
  "centre ps = (sum_list (map fst ps) / real (length ps), sum_list (map snd ps) / real (length ps))"

subsection \<open>The specification's words, for comparison\<close>

text \<open>
  A value reduced to a signed 16-bit integer: the representative of its residue
  modulo \<open>2 ^ 16\<close> in \<open>- 2 ^ 15 ..< 2 ^ 15\<close>.
\<close>

definition wrap16 :: "int \<Rightarrow> int" where
  "wrap16 n = (n + 2 ^ 15) mod 2 ^ 16 - 2 ^ 15"

text \<open>
  What a 16-bit field holds for an argument: a finite number is truncated towards zero
  and reduced; an argument that is omitted, \<^verbatim>\<open>NaN\<close> or an infinity gives 0.
\<close>

fun wrapped16 :: "jsval \<Rightarrow> int" where
  "wrapped16 (Num x) = wrap16 (js_trunc x)"
| "wrapped16 _ = 0"

text \<open>
  The tint decode of the specification, for the channel bytes \<open>a\<close>, \<open>b\<close>, \<open>g\<close>, \<open>r\<close>:
  the colour multiplier for red, green and blue, and the opacity. At most 127 is
  straight alpha; above, the colour is brightened by \<open>2 ^ ((a - 127) / 16)\<close> and opaque.
\<close>

definition spec_tint :: "nat \<Rightarrow> nat \<Rightarrow> nat \<Rightarrow> nat \<Rightarrow> (real \<times> real \<times> real) \<times> real" where
  "spec_tint a b g r =
     (if a \<le> 127 then ((real r / 255, real g / 255, real b / 255), real a / 127)
      else let colorMult = 2 powr ((real a - 127) / 16) / 255
           in ((real r * colorMult, real g * colorMult, real b * colorMult), 1))"

subsection \<open>A renderer with room for one sprite\<close>

text \<open>
  \<^verbatim>\<open>gl1.maxDraws = 1; gl1.setup(canvas)\<close> on a 640 by 480 canvas, and one call
  \<^verbatim>\<open>gl1.drawImage(0, 0, 8, 8, 10, 20, 8, 8)\<close> with tint and rotation omitted.
\<close>

definition oneSlot :: gl1 where
  "oneSlot = setup_gl \<lparr>width = 640, height = 480\<rparr> (gl1_object\<lparr>maxDraws := 1\<rparr>)"

definition drawSprite :: "gl1 \<Rightarrow> error + gl1" where
  "drawSprite =
     drawImage (Num 0) (Num 0) (Num 8) (Num 8) (Num 10) (Num 20) (Num 8) (Num 8) Undefined Undefined"

text \<open>What a run leaves: the pending count with the capacity, the log, a stored tint.\<close>

definition counts :: "error + gl1 \<Rightarrow> (nat \<times> nat) option" where
  "counts r = (case r of Inl e \<Rightarrow> None | Inr s \<Rightarrow> Some (draws s, maxDraws s))"

definition callsAfter :: "error + gl1 \<Rightarrow> glcall list" where
  "callsAfter r = (case r of Inl e \<Rightarrow> [] | Inr s \<Rightarrow> glCalls s)"

definition tintAfter :: "nat \<Rightarrow> error + gl1 \<Rightarrow> 32 word option" where
  "tintAfter k r = (case r of Inl e \<Rightarrow> None | Inr s \<Rightarrow> Some (getUint32 (k * 6 + 4) (bufferOf s)))"

definition bufferAfter :: "error + gl1 \<Rightarrow> byte list option" where
  "bufferAfter r = (case r of Inl e \<Rightarrow> None | Inr s \<Rightarrow> Some (bufferOf s))"

definition slotAfter :: "nat \<Rightarrow> error + gl1 \<Rightarrow> byte list option" where
  "slotAfter k r = (case r of Inl e \<Rightarrow> None | Inr s \<Rightarrow> Some (slot k (bufferOf s)))"

definition int16After :: "nat \<Rightarrow> error + gl1 \<Rightarrow> int option" where
  "int16After j r = (case r of Inl e \<Rightarrow> None | Inr s \<Rightarrow> Some (sint (getInt16 j (bufferOf s))))"

section \<open>Properties\<close>

subsection \<open>Bytes and stores\<close>

lemma length_store_bytes [simp]: "length (store_bytes off bs buf) = length buf"
  by (induction bs arbitrary: off buf) auto

lemma nth_store_bytes:
  "i < length buf \<Longrightarrow>
   store_bytes off bs buf ! i = (if off \<le> i \<and> i < off + length bs then bs ! (i - off) else buf ! i)"
proof (induction bs arbitrary: off buf)
  case Nil
  then show ?case by auto
next
  case (Cons b bs)
  then show ?case
    by (auto simp: nth_list_update nth_Cons')
qed

lemma store_bytes_append:
  "store_bytes off (xs @ ys) buf = store_bytes (off + length xs) ys (store_bytes off xs buf)"
  by (induction xs arbitrary: off buf) auto

lemma store_bytes_commute:
  assumes "o1 + length b1 \<le> o2 \<or> o2 + length b2 \<le> o1"
  shows "store_bytes o1 b1 (store_bytes o2 b2 buf) = store_bytes o2 b2 (store_bytes o1 b1 buf)"
  using assms by (intro nth_equalityI) (auto simp: nth_store_bytes)

lemma store_bytes_eq:
  "off + length bs \<le> length buf \<Longrightarrow>
   store_bytes off bs buf = take off buf @ bs @ drop (off + length bs) buf"
  by (intro nth_equalityI) (auto simp: nth_store_bytes nth_append)

lemma length_le16 [simp]: "length (le16 w) = 2"
  by (simp add: le16_def)

lemma length_le32 [simp]: "length (le32 w) = 4"
  by (simp add: le32_def)

lemma from_le16_le16 [simp]: "from_le16 (le16 w) = w"
  unfolding from_le16_def le16_def
  by (rule bit_word_eqI) (auto simp: bit_simps)

lemma from_le32_le32 [simp]: "from_le32 (le32 w) = w"
proof (rule bit_word_eqI)
  fix n assume "n < LENGTH(32)"
  then consider "n < 8" | "8 \<le> n" "n < 16" | "16 \<le> n" "n < 24" | "24 \<le> n" "n < 32"
    by fastforce
  then show "bit (from_le32 (le32 w)) n \<longleftrightarrow> bit w n"
    by cases (auto simp: from_le32_def le32_def bit_simps)
qed

lemma setInt16_in:
  "2 * j + 2 \<le> length buf \<Longrightarrow> setInt16 j v buf = store_bytes (2 * j) (le16 (toInt16 v)) buf"
  unfolding setInt16_def by auto

lemma setUint32_in:
  "4 * j + 4 \<le> length buf \<Longrightarrow> setUint32 j v buf = store_bytes (4 * j) (le32 (toUint32 v)) buf"
  unfolding setUint32_def by auto

lemma setFloat32_in:
  "4 * j + 4 \<le> length buf \<Longrightarrow> setFloat32 j v buf = store_bytes (4 * j) (le32 (toFloat32 v)) buf"
  unfolding setFloat32_def by auto

lemma setInt16_append:
  assumes "off + length bs = 2 * j" "2 * j + 2 \<le> length buf"
  shows "setInt16 j v (store_bytes off bs buf) = store_bytes off (bs @ le16 (toInt16 v)) buf"
proof -
  have "setInt16 j v (store_bytes off bs buf)
      = store_bytes (2 * j) (le16 (toInt16 v)) (store_bytes off bs buf)"
    using assms(2) by (simp add: setInt16_in)
  also have "\<dots> = store_bytes off (bs @ le16 (toInt16 v)) buf"
    by (simp only: store_bytes_append assms(1))
  finally show ?thesis .
qed

lemma setInt16_eight:
  assumes "2 * j + 16 \<le> length buf"
  shows "setInt16 (j + 7) v7 (setInt16 (j + 6) v6 (setInt16 (j + 5) v5 (setInt16 (j + 4) v4
          (setInt16 (j + 3) v3 (setInt16 (j + 2) v2 (setInt16 (j + 1) v1 (setInt16 j v0 buf)))))))
         = store_bytes (2 * j)
             (le16 (toInt16 v0) @ le16 (toInt16 v1) @ le16 (toInt16 v2) @ le16 (toInt16 v3)
               @ le16 (toInt16 v4) @ le16 (toInt16 v5) @ le16 (toInt16 v6) @ le16 (toInt16 v7)) buf"
  using assms by (simp add: setInt16_in [of j] setInt16_append)

lemma setUint32_setFloat32:
  assumes "4 * j + 8 \<le> length buf"
  shows "setFloat32 (j + 1) v1 (setUint32 j v0 buf)
         = store_bytes (4 * j) (le32 (toUint32 v0) @ le32 (toFloat32 v1)) buf"
proof -
  have a: "setUint32 j v0 buf = store_bytes (4 * j) (le32 (toUint32 v0)) buf"
    using assms by (simp add: setUint32_in)
  have b: "setFloat32 (j + 1) v1 X = store_bytes (4 * (j + 1)) (le32 (toFloat32 v1)) X"
    if "length X = length buf" for X
    using assms that by (simp add: setFloat32_in)
  have c: "4 * (j + 1) = 4 * j + length (le32 (toUint32 v0))"
    by simp
  show ?thesis
    by (simp only: a b [OF length_store_bytes] c store_bytes_append)
qed

lemma bytesPerImage_24: "bytesPerImage = 24"
  by (simp add: bytesPerImage_def shortsPerImagePosition_def shortsPerImageSize_def
      shortsPerImageTexPos_def bytesPerImageRgba_def floatsPerImageRotation_def)

lemma length_recordOf [simp]:
  "length (recordOf tx ty tw th dx dy sx sy rgba rot) = 24"
  by (simp add: recordOf_def spec_record_def)

subsection \<open>drawImage below and at the capacity\<close>

text \<open>
  With a free slot, the ten stores of \<open>drawImage\<close> amount to writing the record of
  the layout contract at byte offset \<open>24 * draws\<close>.
\<close>

lemma drawImage_in_capacity:
  assumes "arrayBuffer s = Some buf" "length buf = maxDraws s * bytesPerImage"
    and "draws s < maxDraws s"
  shows "drawImage tx ty tw th dx dy sx sy rgba rot s =
     Inr (s\<lparr>arrayBuffer :=
              Some (store_bytes (draws s * 24) (recordOf tx ty tw th dx dy sx sy rgba rot) buf),
            draws := draws s + 1\<rparr>)"
proof -
  define k where "k = draws s"
  define c where
    "c = le32 (toUint32 (js_or rgba (Num 0xFFFFFF7F))) @ le32 (toFloat32 (js_or rot (Num 0)))"
  define p where
    "p = le16 (toInt16 dx) @ le16 (toInt16 dy) @ le16 (toInt16 sx) @ le16 (toInt16 sy)
       @ le16 (toInt16 tx) @ le16 (toInt16 ty) @ le16 (toInt16 tw) @ le16 (toInt16 th)"
  have lens: "length c = 8" "length p = 16"
    by (simp_all add: c_def p_def)
  have cap: "k * 24 + 24 \<le> length buf"
    using assms(2,3) by (simp add: k_def bytesPerImage_24)
  have rec: "recordOf tx ty tw th dx dy sx sy rgba rot = p @ c"
    by (simp add: recordOf_def spec_record_def p_def c_def le32_def
        tintA_def tintB_def tintG_def tintR_def)
  define b2 where "b2 = setFloat32 (k * 6 + 5) (js_or rot (Num 0))
     (setUint32 (k * 6 + 4) (js_or rgba (Num 0xFFFFFF7F)) buf)"
  have "k * 6 + 5 = k * 6 + 4 + 1"
    by simp
  moreover have "4 * (k * 6 + 4) + 8 \<le> length buf"
    using cap by simp
  ultimately have "b2 = store_bytes (4 * (k * 6 + 4)) c buf"
    unfolding b2_def c_def by (simp only: setUint32_setFloat32)
  also have "4 * (k * 6 + 4) = k * 24 + length p"
    by (simp add: lens)
  finally have b2: "b2 = store_bytes (k * 24 + length p) c buf" .
  define b3 where "b3 =
    setInt16 (k * 6 * 2 + 7) th (setInt16 (k * 6 * 2 + 6) tw (setInt16 (k * 6 * 2 + 5) ty
     (setInt16 (k * 6 * 2 + 4) tx (setInt16 (k * 6 * 2 + 3) sy (setInt16 (k * 6 * 2 + 2) sx
      (setInt16 (k * 6 * 2 + 1) dy (setInt16 (k * 6 * 2) dx b2)))))))"
  have "2 * (k * 6 * 2) + 16 \<le> length b2"
    using cap by (simp add: b2)
  then have "b3 = store_bytes (2 * (k * 6 * 2)) p b2"
    unfolding b3_def p_def by (rule setInt16_eight)
  also have "2 * (k * 6 * 2) = k * 24"
    by simp
  finally have "b3 = store_bytes (k * 24) p (store_bytes (k * 24 + length p) c buf)"
    unfolding b2 .
  also have "\<dots> = store_bytes (k * 24 + length p) c (store_bytes (k * 24) p buf)"
    by (rule store_bytes_commute) simp
  also have "\<dots> = store_bytes (k * 24) (p @ c) buf"
    by (simp only: store_bytes_append)
  finally have "b3 = store_bytes (k * 24) (recordOf tx ty tw th dx dy sx sy rgba rot) buf"
    by (simp only: rec)
  moreover have "drawImage tx ty tw th dx dy sx sy rgba rot s =
      Inr (s\<lparr>arrayBuffer := Some b3, draws := draws s + 1\<rparr>)"
    by (simp only: drawImage_def Let_def assms(1) option.case b3_def b2_def k_def)
  ultimately show ?thesis
    by (simp only: k_def)
qed

lemma setInt16_out: "length buf \<le> 2 * j \<Longrightarrow> setInt16 j v buf = buf"
  unfolding setInt16_def by auto

lemma setUint32_out: "length buf \<le> 4 * j \<Longrightarrow> setUint32 j v buf = buf"
  unfolding setUint32_def by auto

lemma setFloat32_out: "length buf \<le> 4 * j \<Longrightarrow> setFloat32 j v buf = buf"
  unfolding setFloat32_def by auto

lemma drawImage_beyond_capacity:
  assumes "arrayBuffer s = Some buf" "length buf = maxDraws s * bytesPerImage"
    and "maxDraws s \<le> draws s"
  shows "drawImage tx ty tw th dx dy sx sy rgba rot s = Inr (s\<lparr>draws := draws s + 1\<rparr>)"
proof -
  have "length buf \<le> draws s * 24"
    using assms(2,3) by (simp add: bytesPerImage_24)
  then show ?thesis
    using assms(1)
    by (simp add: drawImage_def Let_def setInt16_out setUint32_out setFloat32_out)
qed

lemma length_setInt16 [simp]: "length (setInt16 j v buf) = length buf"
  by (simp add: setInt16_def)

lemma length_setUint32 [simp]: "length (setUint32 j v buf) = length buf"
  by (simp add: setUint32_def)

lemma length_setFloat32 [simp]: "length (setFloat32 j v buf) = length buf"
  by (simp add: setFloat32_def)

lemma nth_setInt16:
  "i < length buf \<Longrightarrow> i < 2 * j \<or> 2 * j + 2 \<le> i \<Longrightarrow> setInt16 j v buf ! i = buf ! i"
  by (auto simp: setInt16_def nth_store_bytes)

lemma nth_setUint32:
  "i < length buf \<Longrightarrow> i < 4 * j \<or> 4 * j + 4 \<le> i \<Longrightarrow> setUint32 j v buf ! i = buf ! i"
  by (auto simp: setUint32_def nth_store_bytes)

lemma nth_setFloat32:
  "i < length buf \<Longrightarrow> i < 4 * j \<or> 4 * j + 4 \<le> i \<Longrightarrow> setFloat32 j v buf ! i = buf ! i"
  by (auto simp: setFloat32_def nth_store_bytes)

lemma take_drop_eqI:
  assumes "length xs = length ys"
    and "\<And>i. i < length ys \<Longrightarrow> i < a \<or> b \<le> i \<Longrightarrow> xs ! i = ys ! i"
  shows "take a xs = take a ys \<and> drop b xs = drop b ys"
  using assms by (auto intro!: nth_equalityI)

lemma drawImage_outside_slot:
  assumes "arrayBuffer s = Some buf"
  shows "\<exists>buf'. drawImage tx ty tw th dx dy sx sy rgba rot s =
            Inr (s\<lparr>arrayBuffer := Some buf', draws := draws s + 1\<rparr>)
          \<and> length buf' = length buf
          \<and> take (draws s * 24) buf' = take (draws s * 24) buf
          \<and> drop (draws s * 24 + 24) buf' = drop (draws s * 24 + 24) buf"
proof -
  define k where "k = draws s"
  define buf' where "buf' =
    setInt16 (k * 6 * 2 + 7) th (setInt16 (k * 6 * 2 + 6) tw (setInt16 (k * 6 * 2 + 5) ty
     (setInt16 (k * 6 * 2 + 4) tx (setInt16 (k * 6 * 2 + 3) sy (setInt16 (k * 6 * 2 + 2) sx
      (setInt16 (k * 6 * 2 + 1) dy (setInt16 (k * 6 * 2) dx
       (setFloat32 (k * 6 + 5) (js_or rot (Num 0))
         (setUint32 (k * 6 + 4) (js_or rgba (Num 0xFFFFFF7F)) buf)))))))))"
  have run: "drawImage tx ty tw th dx dy sx sy rgba rot s =
      Inr (s\<lparr>arrayBuffer := Some buf', draws := draws s + 1\<rparr>)"
    by (simp only: drawImage_def Let_def assms option.case buf'_def k_def)
  have len: "length buf' = length buf"
    by (simp add: buf'_def)
  have "buf' ! i = buf ! i" if "i < length buf" "i < k * 24 \<or> k * 24 + 24 \<le> i" for i
    using that(2,1) by (elim disjE; simp add: buf'_def nth_setInt16 nth_setUint32 nth_setFloat32)
  with len have "take (k * 24) buf' = take (k * 24) buf \<and> drop (k * 24 + 24) buf' = drop (k * 24 + 24) buf"
    by (intro take_drop_eqI) auto
  with run len show ?thesis
    unfolding k_def by blast
qed

subsection \<open>The set-up state and the one-slot renderer\<close>

lemma attribPointers_append:
  "attribPointers (xs @ ys) = attribPointers xs @ attribPointers ys"
  by (induction xs rule: attribPointers.induct) auto

lemma setup_gl_fields [simp]:
  "arrayBuffer (setup_gl c s) = Some (replicate (maxDraws s * 24) 0)"
  "maxDraws (setup_gl c s) = maxDraws s"
  "draws (setup_gl c s) = draws s"
  "canvas (setup_gl c s) = Some c"
  by (simp_all add: setup_gl_def Let_def bytesPerImage_24)

lemma attribPointers_setup:
  "attribPointers (glCalls (setup_gl c s)) =
     [(''aSizeMult'', 2, FLOAT, 0, 0),
      (''aPos'', 2, SHORT, 24, 0),
      (''aSize'', 2, SHORT, 24, 4),
      (''aTexPos'', 4, SHORT, 24, 8),
      (''aRgba'', 4, UNSIGNED_BYTE, 24, 16),
      (''aRotation'', 1, FLOAT, 24, 20)]"
  by (simp add: setup_gl_def glCalls_def Let_def setupAttributes_def setupAttribute_def
      setupCalls_def attribPointers_append bytesPerImage_24 shortsPerImagePosition_def
      shortsPerImageSize_def shortsPerImageTexPos_def bytesPerImageRgba_def floatsPerImageRotation_def)

lemma oneSlot_fields [simp]:
  "arrayBuffer oneSlot = Some (replicate 24 0)"
  "maxDraws oneSlot = 1"
  "draws oneSlot = 0"
  by (simp_all add: oneSlot_def gl1_object_def)

lemma slot_store_bytes:
  "k * 24 + 24 \<le> length buf \<Longrightarrow> length bs = 24 \<Longrightarrow> slot k (store_bytes (k * 24) bs buf) = bs"
  by (simp add: slot_def store_bytes_eq)


lemma length_spec_record [simp]:
  "length (spec_record a b c d e f g h t r) = 24"
  by (simp add: spec_record_def)

lemma counts_Inr [simp]: "counts (Inr s) = Some (draws s, maxDraws s)"
  by (simp add: counts_def)

lemma andThen_Inr [simp]: "andThen (Inr s) f = f s"
  by (simp add: andThen_def)

lemma drawSprite_oneSlot:
  "drawSprite oneSlot =
     Inr (oneSlot\<lparr>arrayBuffer := Some (store_bytes 0
            (recordOf (Num 0) (Num 0) (Num 8) (Num 8) (Num 10) (Num 20) (Num 8) (Num 8)
               Undefined Undefined) (replicate 24 0)),
          draws := 1\<rparr>)"
  unfolding drawSprite_def
  by (subst drawImage_in_capacity [where buf = "replicate 24 0"]) (simp_all add: bytesPerImage_24)

lemma drawSprite_twice:
  "andThen (drawSprite oneSlot) drawSprite =
     Inr (oneSlot\<lparr>arrayBuffer := Some (store_bytes 0
            (recordOf (Num 0) (Num 0) (Num 8) (Num 8) (Num 10) (Num 20) (Num 8) (Num 8)
               Undefined Undefined) (replicate 24 0)),
          draws := 2\<rparr>)"
  unfolding drawSprite_oneSlot andThen_Inr
  unfolding drawSprite_def
  by (subst drawImage_beyond_capacity [where buf = "store_bytes 0
            (recordOf (Num 0) (Num 0) (Num 8) (Num 8) (Num 10) (Num 20) (Num 8) (Num 8)
               Undefined Undefined) (replicate 24 0)"]) (simp_all add: bytesPerImage_24)

subsection \<open>Logs, the flush and reading a record back\<close>

lemma uploadSizes_append: "uploadSizes (xs @ ys) = uploadSizes xs @ uploadSizes ys"
  by (induction xs rule: uploadSizes.induct) auto

lemma allocations_append: "allocations (xs @ ys) = allocations xs @ allocations ys"
  by (induction xs rule: allocations.induct) auto

lemma uniform1f_append:
  "uniform1f name (xs @ ys) =
     (case uniform1f name ys of Some v \<Rightarrow> Some v | None \<Rightarrow> uniform1f name xs)"
  by (induction name xs rule: uniform1f.induct) (auto split: option.splits)

lemma viewportOf_append:
  "viewportOf (xs @ ys) = (case viewportOf ys of Some v \<Rightarrow> Some v | None \<Rightarrow> viewportOf xs)"
  by (induction xs rule: viewportOf.induct) (auto split: option.splits)

lemma gl_setup_gl: "gl (setup_gl c s) = Some (glCalls (setup_gl c s))"
  by (simp add: setup_gl_def glCalls_def Let_def)

lemma setupAttributes_calls:
  "snd (setupAttributes calls) = calls @
     [EnableVertexAttribArray ''aPos'', VertexAttribPointer ''aPos'' 2 SHORT False 24 0,
      VertexAttribDivisorANGLE ''aPos'' 1,
      EnableVertexAttribArray ''aSize'', VertexAttribPointer ''aSize'' 2 SHORT False 24 4,
      VertexAttribDivisorANGLE ''aSize'' 1,
      EnableVertexAttribArray ''aTexPos'', VertexAttribPointer ''aTexPos'' 4 SHORT False 24 8,
      VertexAttribDivisorANGLE ''aTexPos'' 1,
      EnableVertexAttribArray ''aRgba'', VertexAttribPointer ''aRgba'' 4 UNSIGNED_BYTE False 24 16,
      VertexAttribDivisorANGLE ''aRgba'' 1,
      EnableVertexAttribArray ''aRotation'', VertexAttribPointer ''aRotation'' 1 FLOAT False 24 20,
      VertexAttribDivisorANGLE ''aRotation'' 1]"
  by (simp add: setupAttributes_def setupAttribute_def Let_def bytesPerImage_24
      shortsPerImagePosition_def shortsPerImageSize_def shortsPerImageTexPos_def
      bytesPerImageRgba_def floatsPerImageRotation_def)

lemma uploadSizes_setup [simp]: "uploadSizes (glCalls (setup_gl c s)) = []"
  by (simp add: setup_gl_def glCalls_def Let_def setupAttributes_calls setupCalls_def
      uploadSizes_append)

lemma allocations_setup:
  "allocations (glCalls (setup_gl c s)) =
     [BufferData ELEMENT_ARRAY_BUFFER (Uint8Data [0, 1, 2, 2, 1, 3]) STATIC_DRAW,
      BufferData ARRAY_BUFFER (Float32Data [0, 0, 0, 1, 1, 0, 1, 1]) STATIC_DRAW,
      BufferData ARRAY_BUFFER (BufferBytes (replicate (maxDraws s * 24) 0)) DYNAMIC_DRAW]"
  by (simp add: setup_gl_def glCalls_def Let_def setupAttributes_calls setupCalls_def
      allocations_append indexData_def sizeMultData_def bytesPerImage_24)

lemma subarray32_prefix:
  assumes "length buf = cap * 24"
  shows "subarray32 (n * 6) buf = take (min n cap * 24) buf"
proof -
  have "4 * min (n * 6) (length buf div 4) = min n cap * 24"
    using assms by (simp add: min_def)
  then show ?thesis
    by (simp only: subarray32_def)
qed

lemma drawEverything_log:
  assumes "gl s = Some calls" "arrayBuffer s = Some buf"
    and "length buf = maxDraws s * bytesPerImage"
  shows "drawEverything s =
     Inr (s\<lparr>gl := Some (calls @
              [Clear COLOR_BUFFER_BIT,
               BufferSubData ARRAY_BUFFER 0 (take (min (draws s) (maxDraws s) * 24) buf),
               DrawElementsInstancedANGLE TRIANGLES 6 UNSIGNED_BYTE 0 (draws s)]),
            draws := 0\<rparr>)"
  using assms by (simp add: drawEverything_def subarray32_prefix bytesPerImage_24)

lemma sint_toInt16: "sint (toInt16 (Num x)) = wrap16 (js_trunc x)"
  by (simp add: wrap16_def int_word_sint)


lemma spec_record_alt:
  "spec_record a b c d e f g h t r =
     le16 a @ le16 b @ le16 c @ le16 d @ le16 e @ le16 f @ le16 g @ le16 h @ le32 t @ le32 r"
  by (simp add: spec_record_def le32_def tintA_def tintB_def tintG_def tintR_def)

lemma take_drop_slot:
  "a + b \<le> 24 \<Longrightarrow> take a (drop (k * 24 + b) buf) = take a (drop b (slot k buf))"
  by (simp add: slot_def drop_take add.commute min_def)

lemma getInt16_slot:
  "j < 12 \<Longrightarrow> getInt16 (k * 12 + j) buf = from_le16 (take 2 (drop (2 * j) (slot k buf)))"
  using take_drop_slot [of 2 "2 * j" k buf] by (simp add: getInt16_def algebra_simps)

lemma getUint32_slot:
  "j < 6 \<Longrightarrow> getUint32 (k * 6 + j) buf = from_le32 (take 4 (drop (4 * j) (slot k buf)))"
  using take_drop_slot [of 4 "4 * j" k buf] by (simp add: getUint32_def algebra_simps)

lemma slot_record_reads:
  assumes "slot k buf = spec_record a b c d e f g h t r"
  shows "getInt16 (k * 12) buf = a" "getInt16 (k * 12 + 1) buf = b"
    "getInt16 (k * 12 + 2) buf = c" "getInt16 (k * 12 + 3) buf = d"
    "getInt16 (k * 12 + 4) buf = e" "getInt16 (k * 12 + 5) buf = f"
    "getInt16 (k * 12 + 6) buf = g" "getInt16 (k * 12 + 7) buf = h"
    "getUint32 (k * 6 + 4) buf = t" "getUint32 (k * 6 + 5) buf = r"
  using getInt16_slot [of 0 k buf] getInt16_slot [of 1 k buf] getInt16_slot [of 2 k buf]
    getInt16_slot [of 3 k buf] getInt16_slot [of 4 k buf] getInt16_slot [of 5 k buf]
    getInt16_slot [of 6 k buf] getInt16_slot [of 7 k buf]
    getUint32_slot [of 4 k buf] getUint32_slot [of 5 k buf]
  by (simp_all add: assms spec_record_alt)


lemma glCalls_simps [simp]:
  "glCalls (s\<lparr>gl := Some cs\<rparr>) = cs"
  "glCalls (s\<lparr>draws := d\<rparr>) = glCalls s"
  "glCalls (s\<lparr>arrayBuffer := b\<rparr>) = glCalls s"
  "glCalls (s\<lparr>canvas := cv\<rparr>) = glCalls s"
  by (simp_all add: glCalls_def)

lemma gl_oneSlot: "gl oneSlot = Some (glCalls oneSlot)"
  by (simp add: oneSlot_def gl_setup_gl)

lemma uploadSizes_oneSlot: "uploadSizes (glCalls oneSlot) = []"
  by (simp add: oneSlot_def)

lemma callsAfter_Inr [simp]: "callsAfter (Inr s) = glCalls s"
  by (simp add: callsAfter_def)

subsection \<open>resize and the stored record\<close>

lemma resize_log:
  assumes "gl s = Some calls" "canvas s = Some c"
  shows "resize s =
     Inr (s\<lparr>gl := Some (calls @
              [Viewport 0 0 (width c) (height c),
               Uniform1f ''uCanvasSizeX'' (real (width c) / 2),
               Uniform1f ''uCanvasSizeY'' (real (height c) / 2)])\<rparr>)"
  using assms by (simp add: resize_def)

lemma scaleUniforms_resized:
  "scaleUniforms (s\<lparr>gl := Some (calls @
              [Viewport 0 0 w h, Uniform1f ''uCanvasSizeX'' x, Uniform1f ''uCanvasSizeY'' y])\<rparr>)
     = (Some x, Some y)"
  by (simp add: scaleUniforms_def uniform1f_append)

lemma drawImage_stores:
  assumes "arrayBuffer s = Some buf" "length buf = maxDraws s * bytesPerImage"
    and "draws s < maxDraws s"
  shows "\<exists>buf'. drawImage tx ty tw th dx dy sx sy rgba rot s =
            Inr (s\<lparr>arrayBuffer := Some buf', draws := draws s + 1\<rparr>)
          \<and> slot (draws s) buf' = recordOf tx ty tw th dx dy sx sy rgba rot"
proof -
  have "draws s * 24 + 24 \<le> length buf"
    using assms(2,3) by (simp add: bytesPerImage_24)
  then have "slot (draws s) (store_bytes (draws s * 24) (recordOf tx ty tw th dx dy sx sy rgba rot) buf)
      = recordOf tx ty tw th dx dy sx sy rgba rot"
    by (simp add: slot_store_bytes)
  with drawImage_in_capacity [OF assms, of tx ty tw th dx dy sx sy rgba rot] show ?thesis
    by blast
qed

lemma tintAfter_Inr [simp]: "tintAfter k (Inr s) = Some (getUint32 (k * 6 + 4) (bufferOf s))"
  by (simp add: tintAfter_def)

lemma bufferOf_update [simp]: "bufferOf (s\<lparr>arrayBuffer := Some b, draws := d\<rparr>) = b"
  by (simp add: bufferOf_def)

subsection \<open>The corner multipliers\<close>

lemma cornerMults_eq: "cornerMults = [(0, 0), (0, 1), (1, 0), (1, 1)]"
  by (simp add: cornerMults_def cornerMult_def sizeMultData_def)

subsection \<open>What a run stores\<close>

lemma sint_toInt16_wrapped: "sint (toInt16 v) = wrapped16 v"
  by (cases v) (simp_all add: wrap16_def int_word_sint)

lemma bufferAfter_Inr [simp]: "bufferAfter (Inr s) = Some (bufferOf s)"
  by (simp add: bufferAfter_def)

lemma slotAfter_Inr [simp]: "slotAfter k (Inr s) = Some (slot k (bufferOf s))"
  by (simp add: slotAfter_def)

lemma int16After_Inr [simp]: "int16After j (Inr s) = Some (sint (getInt16 j (bufferOf s)))"
  by (simp add: int16After_def)

lemma drawSprite_then:
  "andThen (drawSprite oneSlot) (drawImage tx ty tw th dx dy sx sy rgba rot) =
     Inr (oneSlot\<lparr>arrayBuffer := Some (store_bytes 0
            (recordOf (Num 0) (Num 0) (Num 8) (Num 8) (Num 10) (Num 20) (Num 8) (Num 8)
               Undefined Undefined) (replicate 24 0)),
          draws := 2\<rparr>)"
  unfolding drawSprite_oneSlot andThen_Inr
  by (subst drawImage_beyond_capacity [where buf = "store_bytes 0
            (recordOf (Num 0) (Num 0) (Num 8) (Num 8) (Num 10) (Num 20) (Num 8) (Num 8)
               Undefined Undefined) (replicate 24 0)"]) (simp_all add: bytesPerImage_24)

lemma toUint32_zero_iff:
  "toUint32 (js_or rgba (Num 0xFFFFFF7F)) = 0 \<longleftrightarrow>
     rgba = PosInf \<or> rgba = NegInf \<or> (\<exists>x. rgba = Num x \<and> x \<noteq> 0 \<and> 2 ^ 32 dvd js_trunc x)"
  by (cases rgba) (simp_all add: js_or_def js_trunc_def word_of_int_eq_0_iff)

lemma tintAfter_oneSlot:
  "tintAfter 0 (drawImage tx ty tw th dx dy sx sy rgba rot oneSlot)
     = Some (toUint32 (js_or rgba (Num 0xFFFFFF7F)))"
proof -
  have h: "arrayBuffer oneSlot = Some (replicate 24 0)"
    "length (replicate 24 (0 :: byte)) = maxDraws oneSlot * bytesPerImage"
    "draws oneSlot < maxDraws oneSlot"
    by (simp_all add: bytesPerImage_24)
  from drawImage_stores [OF h] obtain buf' where
    run: "drawImage tx ty tw th dx dy sx sy rgba rot oneSlot
       = Inr (oneSlot\<lparr>arrayBuffer := Some buf', draws := draws oneSlot + 1\<rparr>)"
    and rec: "slot (draws oneSlot) buf' = recordOf tx ty tw th dx dy sx sy rgba rot"
    by blast
  have "getUint32 (draws oneSlot * 6 + 4) buf' = toUint32 (js_or rgba (Num 0xFFFFFF7F))"
    by (rule slot_record_reads(9) [OF rec [unfolded recordOf_def]])
  then show ?thesis
    by (simp add: run)
qed

section \<open>The claims\<close>

subsection \<open>C1: a draw at the capacity\<close>

text \<open>
  C1, as stated, fails. After \<^verbatim>\<open>setup\<close> with \<open>maxDraws = 1\<close> the first draw leaves the
  pending count equal to the capacity, 1 and 1; the second draw, issued in that state,
  returns normally, and the pending count is 2 with the capacity 1: no error was raised
  and the count is above the capacity.
\<close>

theorem drawImage_at_capacity_counterexample:
  "counts (drawSprite oneSlot) = Some (1, 1)
   \<and> counts (andThen (drawSprite oneSlot) drawSprite) = Some (2, 1)"
proof
  show "counts (drawSprite oneSlot) = Some (1, 1)"
    by (simp add: drawSprite_oneSlot)
  show "counts (andThen (drawSprite oneSlot) drawSprite) = Some (2, 1)"
    by (simp add: drawSprite_twice)
qed

text \<open>
  C1, amended: \<open>drawImage\<close> has no capacity check and raises no capacity error. In
  every set-up state whose pending count is at or above the capacity, a draw returns
  normally, leaves the buffer as it was (the stores fall outside the typed arrays and
  are ignored, so no record is written) and increments the pending count by 1. The
  count stays at least 0, but it is not kept at or below the capacity.
\<close>

theorem drawImage_at_capacity:
  assumes "arrayBuffer s = Some buf" "length buf = maxDraws s * bytesPerImage"
    and "maxDraws s \<le> draws s"
  shows "drawImage texPartX texPartY texPartSizeX texPartSizeY drawX drawY sizeX sizeY rgba rotation s
           = Inr (s\<lparr>draws := draws s + 1\<rparr>)"
  using assms by (rule drawImage_beyond_capacity)

text \<open>
  The witness for C1: the one-slot renderer with pending count 1, where a draw gives
  pending count 2 and nothing else changes.
\<close>

theorem drawImage_at_capacity_witness:
  "arrayBuffer (oneSlot\<lparr>draws := 1\<rparr>) = Some (replicate 24 0)
   \<and> length (replicate 24 (0 :: byte)) = maxDraws (oneSlot\<lparr>draws := 1\<rparr>) * bytesPerImage
   \<and> maxDraws (oneSlot\<lparr>draws := 1\<rparr>) \<le> draws (oneSlot\<lparr>draws := 1\<rparr>)
   \<and> drawImage (Num 0) (Num 0) (Num 8) (Num 8) (Num 10) (Num 20) (Num 8) (Num 8) Undefined Undefined
         (oneSlot\<lparr>draws := 1\<rparr>) = Inr (oneSlot\<lparr>draws := 2\<rparr>)"
  using drawImage_at_capacity [of "oneSlot\<lparr>draws := 1\<rparr>" "replicate 24 0"
      "Num 0" "Num 0" "Num 8" "Num 8" "Num 10" "Num 20" "Num 8" "Num 8" Undefined Undefined]
  by (simp add: bytesPerImage_24)

subsection \<open>C2: the layout of a record\<close>

text \<open>
  C2, as stated, fails: not every draw writes a record. On the one-slot renderer the
  first draw leaves the pending count 1 equal to the capacity 1. A second draw, with
  position 30, 40, a green tint and the rotation 1, leaves the buffer exactly as the
  first draw left it, and at byte offset \<open>1 * 24\<close> the 24-byte buffer has no bytes at
  all: no record was written at offset \<open>k * 24\<close>.
\<close>

theorem drawImage_layout_counterexample:
  "counts (drawSprite oneSlot) = Some (1, 1)
   \<and> bufferAfter (andThen (drawSprite oneSlot)
        (drawImage (Num 0) (Num 0) (Num 8) (Num 8) (Num 30) (Num 40) (Num 8) (Num 8)
           (Num 0x00FF007F) (Num 1)))
       = bufferAfter (drawSprite oneSlot)
   \<and> slotAfter 1 (andThen (drawSprite oneSlot)
        (drawImage (Num 0) (Num 0) (Num 8) (Num 8) (Num 30) (Num 40) (Num 8) (Num 8)
           (Num 0x00FF007F) (Num 1)))
       = Some []"
  by (simp add: drawSprite_then) (simp add: drawSprite_oneSlot slot_def)

text \<open>
  C2, amended: every draw with pending count \<open>k\<close> below the capacity writes one 24-byte
  record at byte offset \<open>k * 24\<close>. Its bytes are: at 0 to 15 the eight signed 16-bit
  integers drawX, drawY, sizeX, sizeY, texPartX, texPartY, texPartSizeX, texPartSizeY;
  at 16 to 19 the tint bytes in the order a, b, g, r; at 20 to 23 the rotation as one
  32-bit float. The attributes that \<^verbatim>\<open>setup\<close> declares for the record have the stride
  24 and these offsets and types: two shorts at 0, two shorts at 4, four shorts at 8,
  four unsigned bytes at 16, one float at 20.
\<close>

theorem drawImage_layout:
  assumes "arrayBuffer s = Some buf" "length buf = maxDraws s * bytesPerImage"
    and "draws s < maxDraws s"
  shows "\<exists>buf'.
     drawImage texPartX texPartY texPartSizeX texPartSizeY drawX drawY sizeX sizeY rgba rotation s
       = Inr (s\<lparr>arrayBuffer := Some buf', draws := draws s + 1\<rparr>)
     \<and> take 24 (drop (draws s * 24) buf') =
         spec_record (toInt16 drawX) (toInt16 drawY) (toInt16 sizeX) (toInt16 sizeY)
           (toInt16 texPartX) (toInt16 texPartY) (toInt16 texPartSizeX) (toInt16 texPartSizeY)
           (toUint32 (js_or rgba (Num 0xFFFFFF7F))) (toFloat32 (js_or rotation (Num 0)))
     \<and> length (take 24 (drop (draws s * 24) buf')) = 24
     \<and> bytesPerImage = 24
     \<and> attribPointers (glCalls (setup_gl c s0)) =
         [(''aSizeMult'', 2, FLOAT, 0, 0),
          (''aPos'', 2, SHORT, 24, 0),
          (''aSize'', 2, SHORT, 24, 4),
          (''aTexPos'', 4, SHORT, 24, 8),
          (''aRgba'', 4, UNSIGNED_BYTE, 24, 16),
          (''aRotation'', 1, FLOAT, 24, 20)]"
proof -
  let ?r = "recordOf texPartX texPartY texPartSizeX texPartSizeY drawX drawY sizeX sizeY rgba rotation"
  let ?b = "store_bytes (draws s * 24) ?r buf"
  have cap: "draws s * 24 + 24 \<le> length buf"
    using assms(2,3) by (simp add: bytesPerImage_24)
  have "slot (draws s) ?b = ?r"
    using cap by (simp add: slot_store_bytes)
  then have "take 24 (drop (draws s * 24) ?b) = ?r"
    by (simp add: slot_def)
  moreover have "drawImage texPartX texPartY texPartSizeX texPartSizeY drawX drawY sizeX sizeY
      rgba rotation s = Inr (s\<lparr>arrayBuffer := Some ?b, draws := draws s + 1\<rparr>)"
    using assms by (rule drawImage_in_capacity)
  ultimately show ?thesis
    using attribPointers_setup [of c s0]
    by (intro exI [of _ ?b]) (simp add: recordOf_def bytesPerImage_24)
qed

text \<open>
  The witness for C2: on the one-slot renderer,
  \<^verbatim>\<open>drawImage(0, 0, 8, 8, 10, 20, 8, 8, 0x00FF007F, 1)\<close> stores position 10, 20, size 8, 8,
  texture rectangle 0, 0, 8, 8, the tint bytes a = 0x7F, b = 0, g = 0xFF, r = 0 and the
  float 1.0, which is 0x3F800000.
\<close>

theorem drawImage_layout_witness:
  "arrayBuffer oneSlot = Some (replicate 24 0)
   \<and> length (replicate 24 (0 :: byte)) = maxDraws oneSlot * bytesPerImage
   \<and> draws oneSlot < maxDraws oneSlot
   \<and> (\<exists>buf'.
     drawImage (Num 0) (Num 0) (Num 8) (Num 8) (Num 10) (Num 20) (Num 8) (Num 8)
         (Num 0x00FF007F) (Num 1) oneSlot
       = Inr (oneSlot\<lparr>arrayBuffer := Some buf', draws := 1\<rparr>)
     \<and> take 24 (drop 0 buf') =
         [10, 0, 20, 0, 8, 0, 8, 0, 0, 0, 0, 0, 8, 0, 8, 0, 0x7F, 0, 0xFF, 0, 0, 0, 0x80, 0x3F])"
  using drawImage_layout [of oneSlot "replicate 24 0" "Num 0" "Num 0" "Num 8" "Num 8"
      "Num 10" "Num 20" "Num 8" "Num 8" "Num 0x00FF007F" "Num 1" "\<lparr>width = 640, height = 480\<rparr>"
      gl1_object]
  by (auto simp: bytesPerImage_24 spec_record_def le16_def le32_def js_or_def js_trunc_def
      tintA_def tintB_def tintG_def tintR_def float32_bits_def float32_magnitude_def
      roundHalfEven_def)

subsection \<open>C10: what a draw leaves unchanged\<close>

text \<open>
  C10: every draw, at any pending count \<open>k\<close>, increments the pending count by exactly 1
  and changes no field of the renderer other than the buffer and the count. The buffer
  keeps its length, all bytes before offset \<open>k * 24\<close> (the records below \<open>k\<close>) and all
  bytes from offset \<open>k * 24 + 24\<close> on.
\<close>

theorem drawImage_frame:
  assumes "arrayBuffer s = Some buf"
  shows "\<exists>s' buf'.
     drawImage texPartX texPartY texPartSizeX texPartSizeY drawX drawY sizeX sizeY rgba rotation s
       = Inr s'
     \<and> s' = s\<lparr>arrayBuffer := Some buf', draws := draws s + 1\<rparr>
     \<and> draws s' = draws s + 1
     \<and> maxDraws s' = maxDraws s \<and> gl s' = gl s \<and> canvas s' = canvas s
     \<and> jsImage s' = jsImage s \<and> texSizeX s' = texSizeX s \<and> texSizeY s' = texSizeY s
     \<and> length buf' = length buf
     \<and> take (draws s * 24) buf' = take (draws s * 24) buf
     \<and> drop (draws s * 24 + 24) buf' = drop (draws s * 24 + 24) buf"
proof -
  from drawImage_outside_slot [OF assms] obtain buf' where
    "drawImage texPartX texPartY texPartSizeX texPartSizeY drawX drawY sizeX sizeY rgba rotation s
       = Inr (s\<lparr>arrayBuffer := Some buf', draws := draws s + 1\<rparr>)"
    "length buf' = length buf"
    "take (draws s * 24) buf' = take (draws s * 24) buf"
    "drop (draws s * 24 + 24) buf' = drop (draws s * 24 + 24) buf"
    by blast
  then show ?thesis
    by (intro exI [of _ "s\<lparr>arrayBuffer := Some buf', draws := draws s + 1\<rparr>"] exI [of _ buf'])
      simp
qed

text \<open>The witness for C10: one draw on the one-slot renderer.\<close>

theorem drawImage_frame_witness:
  "arrayBuffer oneSlot = Some (replicate 24 0)
   \<and> (\<exists>s' buf'.
     drawImage (Num 0) (Num 0) (Num 8) (Num 8) (Num 10) (Num 20) (Num 8) (Num 8)
         Undefined Undefined oneSlot = Inr s'
     \<and> s' = oneSlot\<lparr>arrayBuffer := Some buf', draws := 1\<rparr>
     \<and> draws s' = 1 \<and> maxDraws s' = 1 \<and> gl s' = gl oneSlot \<and> canvas s' = canvas oneSlot
     \<and> length buf' = 24 \<and> take 0 buf' = [] \<and> drop 24 buf' = [])"
  using drawImage_frame [of oneSlot "replicate 24 0" "Num 0" "Num 0" "Num 8" "Num 8"
      "Num 10" "Num 20" "Num 8" "Num 8" Undefined Undefined]
  by auto

subsection \<open>C3: the flush\<close>

text \<open>
  C3, as stated, fails. On the one-slot renderer two draws leave the pending count 2
  with the capacity 1; the flush then uploads 24 bytes, the whole buffer, and not
  \<open>2 * 24 = 48\<close>: \<^verbatim>\<open>subarray\<close> clamps its end to the length of the view.
\<close>

theorem drawEverything_upload_counterexample:
  "counts (andThen (drawSprite oneSlot) drawSprite) = Some (2, 1)
   \<and> uploadSizes (callsAfter (andThen (andThen (drawSprite oneSlot) drawSprite) drawEverything))
       = [24]"
proof
  show "counts (andThen (drawSprite oneSlot) drawSprite) = Some (2, 1)"
    by (simp add: drawSprite_twice)
  let ?buf = "store_bytes 0
      (recordOf (Num 0) (Num 0) (Num 8) (Num 8) (Num 10) (Num 20) (Num 8) (Num 8)
         Undefined Undefined) (replicate 24 0)"
  let ?s = "oneSlot\<lparr>arrayBuffer := Some ?buf, draws := 2\<rparr>"
  have "drawEverything ?s =
     Inr (?s\<lparr>gl := Some (glCalls oneSlot @
              [Clear COLOR_BUFFER_BIT,
               BufferSubData ARRAY_BUFFER 0 (take (min (draws ?s) (maxDraws ?s) * 24) ?buf),
               DrawElementsInstancedANGLE TRIANGLES 6 UNSIGNED_BYTE 0 (draws ?s)]),
            draws := 0\<rparr>)"
    by (rule drawEverything_log) (simp_all add: gl_oneSlot bytesPerImage_24)
  then show "uploadSizes (callsAfter
      (andThen (andThen (drawSprite oneSlot) drawSprite) drawEverything)) = [24]"
    by (simp add: drawSprite_twice uploadSizes_append uploadSizes_oneSlot)
qed

text \<open>
  C3, amended: for every pending count \<open>n\<close> at the flush, \<open>drawEverything\<close> clears, uploads
  from offset 0 the first \<open>min n capacity * 24\<close> bytes of the buffer, which is never more
  than \<open>n * 24\<close> bytes and exactly \<open>n * 24\<close> bytes whenever \<open>n\<close> is at most the capacity,
  issues one instanced draw of 6 indices with instance count \<open>n\<close>, and resets the
  pending count to 0. The indices, given once in \<^verbatim>\<open>setup\<close>, are 0, 1, 2, 2, 1, 3: two
  triangles on the four corners.
\<close>

theorem drawEverything_upload:
  assumes "gl s = Some calls" "arrayBuffer s = Some buf"
    and "length buf = maxDraws s * bytesPerImage"
  shows "drawEverything s =
       Inr (s\<lparr>gl := Some (calls @
                [Clear COLOR_BUFFER_BIT,
                 BufferSubData ARRAY_BUFFER 0 (take (min (draws s) (maxDraws s) * 24) buf),
                 DrawElementsInstancedANGLE TRIANGLES 6 UNSIGNED_BYTE 0 (draws s)]),
              draws := 0\<rparr>)
     \<and> length (take (min (draws s) (maxDraws s) * 24) buf) = min (draws s) (maxDraws s) * 24
     \<and> min (draws s) (maxDraws s) * 24 \<le> draws s * 24
     \<and> (draws s \<le> maxDraws s \<longrightarrow> min (draws s) (maxDraws s) * 24 = draws s * 24)
     \<and> allocations (glCalls (setup_gl c s0)) =
         [BufferData ELEMENT_ARRAY_BUFFER (Uint8Data [0, 1, 2, 2, 1, 3]) STATIC_DRAW,
          BufferData ARRAY_BUFFER (Float32Data [0, 0, 0, 1, 1, 0, 1, 1]) STATIC_DRAW,
          BufferData ARRAY_BUFFER (BufferBytes (replicate (maxDraws s0 * 24) 0)) DYNAMIC_DRAW]"
  using drawEverything_log [OF assms] assms(3)
  by (simp add: allocations_setup bytesPerImage_24 min_def)

text \<open>
  The witness for C3: capacity 3 and pending count 3 give an upload of 72 bytes and
  the instance count 3.
\<close>

theorem drawEverything_upload_witness:
  "gl (setup_gl \<lparr>width = 640, height = 480\<rparr> (gl1_object\<lparr>maxDraws := 3, draws := 3\<rparr>))
     = Some (glCalls (setup_gl \<lparr>width = 640, height = 480\<rparr> (gl1_object\<lparr>maxDraws := 3, draws := 3\<rparr>)))
   \<and> arrayBuffer (setup_gl \<lparr>width = 640, height = 480\<rparr> (gl1_object\<lparr>maxDraws := 3, draws := 3\<rparr>))
     = Some (replicate 72 0)
   \<and> length (replicate 72 (0 :: byte))
     = maxDraws (setup_gl \<lparr>width = 640, height = 480\<rparr> (gl1_object\<lparr>maxDraws := 3, draws := 3\<rparr>))
         * bytesPerImage
   \<and> drawEverything (setup_gl \<lparr>width = 640, height = 480\<rparr> (gl1_object\<lparr>maxDraws := 3, draws := 3\<rparr>))
     = Inr (setup_gl \<lparr>width = 640, height = 480\<rparr> (gl1_object\<lparr>maxDraws := 3, draws := 3\<rparr>)
         \<lparr>gl := Some (glCalls (setup_gl \<lparr>width = 640, height = 480\<rparr>
                   (gl1_object\<lparr>maxDraws := 3, draws := 3\<rparr>)) @
                [Clear COLOR_BUFFER_BIT,
                 BufferSubData ARRAY_BUFFER 0 (replicate 72 0),
                 DrawElementsInstancedANGLE TRIANGLES 6 UNSIGNED_BYTE 0 3]),
          draws := 0\<rparr>)"
  using drawEverything_upload [of
      "setup_gl \<lparr>width = 640, height = 480\<rparr> (gl1_object\<lparr>maxDraws := 3, draws := 3\<rparr>)"
      "glCalls (setup_gl \<lparr>width = 640, height = 480\<rparr> (gl1_object\<lparr>maxDraws := 3, draws := 3\<rparr>))"
      "replicate 72 0" "\<lparr>width = 640, height = 480\<rparr>" gl1_object]
  by (simp add: gl_setup_gl bytesPerImage_24 gl1_object_def)

subsection \<open>C7: resize\<close>

text \<open>
  C7: for every canvas size \<open>(w, h)\<close>, \<open>resize\<close> sets the viewport to \<open>(0, 0, w, h)\<close> and
  the two scale uniforms to \<open>w / 2\<close> and \<open>h / 2\<close>. It issues these three calls and no
  other: the array buffer is the same, and no \<^verbatim>\<open>bufferData\<close> or \<^verbatim>\<open>texImage2D\<close> is added
  to the log. A resize at any other canvas size leaves different scale uniforms.
\<close>

theorem resize_scale:
  assumes "gl s = Some calls" "canvas s = Some c"
  shows "\<exists>s'. resize s = Inr s'
     \<and> s' = s\<lparr>gl := Some (calls @
              [Viewport 0 0 (width c) (height c),
               Uniform1f ''uCanvasSizeX'' (real (width c) / 2),
               Uniform1f ''uCanvasSizeY'' (real (height c) / 2)])\<rparr>
     \<and> scaleUniforms s' = (Some (real (width c) / 2), Some (real (height c) / 2))
     \<and> viewportOf (glCalls s') = Some (0, 0, width c, height c)
     \<and> arrayBuffer s' = arrayBuffer s
     \<and> allocations (glCalls s') = allocations calls
     \<and> (\<forall>t calls' c' t'.
           gl t = Some calls' \<and> canvas t = Some c' \<and> resize t = Inr t'
             \<and> (width c', height c') \<noteq> (width c, height c)
           \<longrightarrow> scaleUniforms t' \<noteq> scaleUniforms s')"
proof -
  let ?s' = "s\<lparr>gl := Some (calls @
              [Viewport 0 0 (width c) (height c),
               Uniform1f ''uCanvasSizeX'' (real (width c) / 2),
               Uniform1f ''uCanvasSizeY'' (real (height c) / 2)])\<rparr>"
  have run: "resize s = Inr ?s'"
    using assms by (rule resize_log)
  have scale: "scaleUniforms ?s' = (Some (real (width c) / 2), Some (real (height c) / 2))"
    by (rule scaleUniforms_resized)
  have "scaleUniforms t' \<noteq> scaleUniforms ?s'"
    if "gl t = Some calls'" "canvas t = Some c'" "resize t = Inr t'"
      "(width c', height c') \<noteq> (width c, height c)" for t calls' c' t'
  proof -
    have "scaleUniforms t' = (Some (real (width c') / 2), Some (real (height c') / 2))"
      using that(3) resize_log [OF that(1,2)] by (auto simp: scaleUniforms_resized)
    with that(4) show ?thesis
      by (auto simp: scale)
  qed
  with run scale show ?thesis
    by (intro exI [of _ ?s']) (auto simp: viewportOf_append allocations_append)
qed

text \<open>
  The witness for C7: the one-slot renderer on its 640 by 480 canvas and on an 800 by
  600 canvas; the uniforms are 320, 240 and 400, 300.
\<close>

theorem resize_scale_witness:
  "gl oneSlot = Some (glCalls oneSlot) \<and> canvas oneSlot = Some \<lparr>width = 640, height = 480\<rparr>
   \<and> gl (oneSlot\<lparr>canvas := Some \<lparr>width = 800, height = 600\<rparr>\<rparr>) = Some (glCalls oneSlot)
   \<and> canvas (oneSlot\<lparr>canvas := Some \<lparr>width = 800, height = 600\<rparr>\<rparr>)
       = Some \<lparr>width = 800, height = 600\<rparr>
   \<and> (\<exists>s' t'. resize oneSlot = Inr s'
        \<and> resize (oneSlot\<lparr>canvas := Some \<lparr>width = 800, height = 600\<rparr>\<rparr>) = Inr t'
        \<and> scaleUniforms s' = (Some 320, Some 240)
        \<and> scaleUniforms t' = (Some 400, Some 300)
        \<and> viewportOf (glCalls s') = Some (0, 0, 640, 480)
        \<and> arrayBuffer s' = arrayBuffer oneSlot
        \<and> scaleUniforms t' \<noteq> scaleUniforms s')"
proof -
  let ?t = "oneSlot\<lparr>canvas := Some \<lparr>width = 800, height = 600\<rparr>\<rparr>"
  have g: "gl oneSlot = Some (glCalls oneSlot)" "gl ?t = Some (glCalls oneSlot)"
    by (simp_all add: gl_oneSlot)
  have c: "canvas oneSlot = Some \<lparr>width = 640, height = 480\<rparr>"
    "canvas ?t = Some \<lparr>width = 800, height = 600\<rparr>"
    by (simp_all add: oneSlot_def)
  from resize_scale [OF g(1) c(1)] obtain s' where s':
    "resize oneSlot = Inr s'" "scaleUniforms s' = (Some 320, Some 240)"
    "viewportOf (glCalls s') = Some (0, 0, 640, 480)" "arrayBuffer s' = arrayBuffer oneSlot"
    and diff: "\<And>t calls' c' t'. gl t = Some calls' \<Longrightarrow> canvas t = Some c' \<Longrightarrow> resize t = Inr t'
             \<Longrightarrow> (width c', height c') \<noteq> (640, 480) \<Longrightarrow> scaleUniforms t' \<noteq> scaleUniforms s'"
    by auto
  from resize_scale [OF g(2) c(2)] obtain t' where t':
    "resize ?t = Inr t'" "scaleUniforms t' = (Some 400, Some 300)"
    by auto
  have "scaleUniforms t' \<noteq> scaleUniforms s'"
    using diff [OF g(2) c(2) t'(1)] by simp
  with s' t' g c show ?thesis
    by blast
qed

subsection \<open>C8: arguments outside the 16-bit range\<close>

text \<open>
  C8, as stated, fails in two ways. At the capacity no value is stored: on the one-slot
  renderer with pending count 1, a draw at the position 40000, which is outside the
  16-bit range, leaves the buffer as it was, and the buffer has no bytes at offset 24.
  And an argument outside the range need not be a number that wraps: a draw at the
  position \<^verbatim>\<open>Infinity\<close> stores 0.
\<close>

theorem drawImage_wraps_counterexample:
  "counts (drawSprite oneSlot) = Some (1, 1)
   \<and> bufferAfter (andThen (drawSprite oneSlot)
        (drawImage (Num 0) (Num 0) (Num 8) (Num 8) (Num 40000) (Num 20) (Num 8) (Num 8)
           Undefined Undefined))
       = bufferAfter (drawSprite oneSlot)
   \<and> slotAfter 1 (andThen (drawSprite oneSlot)
        (drawImage (Num 0) (Num 0) (Num 8) (Num 8) (Num 40000) (Num 20) (Num 8) (Num 8)
           Undefined Undefined))
       = Some []
   \<and> int16After 0
        (drawImage (Num 0) (Num 0) (Num 8) (Num 8) PosInf (Num 20) (Num 8) (Num 8)
           Undefined Undefined oneSlot)
       = Some 0"
proof -
  have h: "arrayBuffer oneSlot = Some (replicate 24 0)"
    "length (replicate 24 (0 :: byte)) = maxDraws oneSlot * bytesPerImage"
    "draws oneSlot < maxDraws oneSlot"
    by (simp_all add: bytesPerImage_24)
  from drawImage_stores [OF h] obtain buf' where
    run: "drawImage (Num 0) (Num 0) (Num 8) (Num 8) PosInf (Num 20) (Num 8) (Num 8)
        Undefined Undefined oneSlot
       = Inr (oneSlot\<lparr>arrayBuffer := Some buf', draws := draws oneSlot + 1\<rparr>)"
    and rec: "slot (draws oneSlot) buf' = recordOf (Num 0) (Num 0) (Num 8) (Num 8) PosInf
        (Num 20) (Num 8) (Num 8) Undefined Undefined"
    by blast
  have "getInt16 (draws oneSlot * 12) buf' = toInt16 PosInf"
    by (rule slot_record_reads(1) [OF rec [unfolded recordOf_def]])
  then have "int16After 0
        (drawImage (Num 0) (Num 0) (Num 8) (Num 8) PosInf (Num 20) (Num 8) (Num 8)
           Undefined Undefined oneSlot) = Some 0"
    by (simp add: run)
  then show ?thesis
    by (simp add: drawSprite_then) (simp add: drawSprite_oneSlot slot_def)
qed

text \<open>
  C8, amended: \<open>drawImage\<close> checks no range and raises no error, for any arguments and
  at any pending count. In a draw with a free slot each of the eight stored 16-bit
  integers, read as signed, is the argument truncated towards zero and reduced modulo
  \<open>2 ^ 16\<close> into \<open>- 2 ^ 15 ..< 2 ^ 15\<close> when the argument is a finite number, and 0 when
  it is omitted, \<^verbatim>\<open>NaN\<close> or an infinity. In a draw at or beyond the capacity nothing
  is stored: the buffer is unchanged.
\<close>

theorem drawImage_wraps:
  assumes "arrayBuffer s = Some buf" "length buf = maxDraws s * bytesPerImage"
  shows "\<exists>buf'.
     drawImage texPartX texPartY texPartSizeX texPartSizeY drawX drawY sizeX sizeY rgba rotation s
       = Inr (s\<lparr>arrayBuffer := Some buf', draws := draws s + 1\<rparr>)
     \<and> (draws s < maxDraws s \<longrightarrow>
        [sint (getInt16 (draws s * 12) buf'), sint (getInt16 (draws s * 12 + 1) buf'),
         sint (getInt16 (draws s * 12 + 2) buf'), sint (getInt16 (draws s * 12 + 3) buf'),
         sint (getInt16 (draws s * 12 + 4) buf'), sint (getInt16 (draws s * 12 + 5) buf'),
         sint (getInt16 (draws s * 12 + 6) buf'), sint (getInt16 (draws s * 12 + 7) buf')]
        = [wrapped16 drawX, wrapped16 drawY, wrapped16 sizeX, wrapped16 sizeY,
           wrapped16 texPartX, wrapped16 texPartY, wrapped16 texPartSizeX,
           wrapped16 texPartSizeY])
     \<and> (maxDraws s \<le> draws s \<longrightarrow> buf' = buf)"
proof (cases "draws s < maxDraws s")
  case True
  from drawImage_stores [OF assms True] obtain buf' where
    run: "drawImage texPartX texPartY texPartSizeX texPartSizeY drawX drawY sizeX sizeY
         rgba rotation s
       = Inr (s\<lparr>arrayBuffer := Some buf', draws := draws s + 1\<rparr>)"
    and rec: "slot (draws s) buf' = recordOf texPartX texPartY texPartSizeX texPartSizeY
         drawX drawY sizeX sizeY rgba rotation"
    by blast
  note reads = slot_record_reads [OF rec [unfolded recordOf_def]]
  have "[sint (getInt16 (draws s * 12) buf'), sint (getInt16 (draws s * 12 + 1) buf'),
         sint (getInt16 (draws s * 12 + 2) buf'), sint (getInt16 (draws s * 12 + 3) buf'),
         sint (getInt16 (draws s * 12 + 4) buf'), sint (getInt16 (draws s * 12 + 5) buf'),
         sint (getInt16 (draws s * 12 + 6) buf'), sint (getInt16 (draws s * 12 + 7) buf')]
        = [wrapped16 drawX, wrapped16 drawY, wrapped16 sizeX, wrapped16 sizeY,
           wrapped16 texPartX, wrapped16 texPartY, wrapped16 texPartSizeX,
           wrapped16 texPartSizeY]"
    by (simp only: reads sint_toInt16_wrapped)
  with run True show ?thesis
    by (intro exI [of _ buf']) simp
next
  case False
  then have "maxDraws s \<le> draws s"
    by simp
  from drawImage_beyond_capacity [OF assms this]
  have "drawImage texPartX texPartY texPartSizeX texPartSizeY drawX drawY sizeX sizeY
         rgba rotation s
       = Inr (s\<lparr>arrayBuffer := Some buf, draws := draws s + 1\<rparr>)"
    using assms(1) by simp
  with False show ?thesis
    by (intro exI [of _ buf]) simp
qed

text \<open>
  The witness for C8. With a free slot: 40000 is stored as -25536, -40000 as 25536,
  70000.5 as 4464, 65536 as 0, -32769 as 32767, and \<^verbatim>\<open>Infinity\<close>, \<^verbatim>\<open>NaN\<close> and 0 as 0.
  At the capacity: the draw at position 40000 changes only the pending count.
\<close>

theorem drawImage_wraps_witness:
  "arrayBuffer oneSlot = Some (replicate 24 0)
   \<and> length (replicate 24 (0 :: byte)) = maxDraws oneSlot * bytesPerImage
   \<and> draws oneSlot < maxDraws oneSlot
   \<and> (\<exists>buf'.
     drawImage (Num 0) (Num 65536) (Num (- 32769)) NaN (Num 40000) (Num (- 40000))
         (Num (140001 / 2)) PosInf Undefined Undefined oneSlot
       = Inr (oneSlot\<lparr>arrayBuffer := Some buf', draws := draws oneSlot + 1\<rparr>)
     \<and> [sint (getInt16 (draws oneSlot * 12) buf'), sint (getInt16 (draws oneSlot * 12 + 1) buf'),
        sint (getInt16 (draws oneSlot * 12 + 2) buf'), sint (getInt16 (draws oneSlot * 12 + 3) buf'),
        sint (getInt16 (draws oneSlot * 12 + 4) buf'), sint (getInt16 (draws oneSlot * 12 + 5) buf'),
        sint (getInt16 (draws oneSlot * 12 + 6) buf'), sint (getInt16 (draws oneSlot * 12 + 7) buf')]
       = [- 25536, 25536, 4464, 0, 0, 0, 32767, 0])
   \<and> arrayBuffer (oneSlot\<lparr>draws := 1\<rparr>) = Some (replicate 24 0)
   \<and> maxDraws (oneSlot\<lparr>draws := 1\<rparr>) \<le> draws (oneSlot\<lparr>draws := 1\<rparr>)
   \<and> drawImage (Num 0) (Num 0) (Num 8) (Num 8) (Num 40000) (Num 20) (Num 8) (Num 8)
         Undefined Undefined (oneSlot\<lparr>draws := 1\<rparr>)
       = Inr (oneSlot\<lparr>draws := 2\<rparr>)"
proof -
  have h: "arrayBuffer oneSlot = Some (replicate 24 0)"
    "length (replicate 24 (0 :: byte)) = maxDraws oneSlot * bytesPerImage"
    by (simp_all add: bytesPerImage_24)
  have free: "draws oneSlot < maxDraws oneSlot"
    by simp
  have v: "wrapped16 (Num 40000) = - 25536" "wrapped16 (Num (- 40000)) = 25536"
    "wrapped16 (Num (140001 / 2)) = 4464" "wrapped16 PosInf = 0"
    "wrapped16 (Num 0) = 0" "wrapped16 (Num 65536) = 0"
    "wrapped16 (Num (- 32769)) = 32767" "wrapped16 NaN = 0"
    by (simp_all add: wrap16_def js_trunc_def)
  have one: "\<exists>buf'.
     drawImage (Num 0) (Num 65536) (Num (- 32769)) NaN (Num 40000) (Num (- 40000))
         (Num (140001 / 2)) PosInf Undefined Undefined oneSlot
       = Inr (oneSlot\<lparr>arrayBuffer := Some buf', draws := draws oneSlot + 1\<rparr>)
     \<and> [sint (getInt16 (draws oneSlot * 12) buf'), sint (getInt16 (draws oneSlot * 12 + 1) buf'),
        sint (getInt16 (draws oneSlot * 12 + 2) buf'), sint (getInt16 (draws oneSlot * 12 + 3) buf'),
        sint (getInt16 (draws oneSlot * 12 + 4) buf'), sint (getInt16 (draws oneSlot * 12 + 5) buf'),
        sint (getInt16 (draws oneSlot * 12 + 6) buf'), sint (getInt16 (draws oneSlot * 12 + 7) buf')]
       = [- 25536, 25536, 4464, 0, 0, 0, 32767, 0]"
    using drawImage_wraps [OF h, of "Num 0" "Num 65536" "Num (- 32769)" NaN "Num 40000"
        "Num (- 40000)" "Num (140001 / 2)" PosInf Undefined Undefined] free
    unfolding v by blast
  have h': "arrayBuffer (oneSlot\<lparr>draws := 1\<rparr>) = Some (replicate 24 0)"
    "length (replicate 24 (0 :: byte)) = maxDraws (oneSlot\<lparr>draws := 1\<rparr>) * bytesPerImage"
    by (simp_all add: bytesPerImage_24)
  have full: "maxDraws (oneSlot\<lparr>draws := 1\<rparr>) \<le> draws (oneSlot\<lparr>draws := 1\<rparr>)"
    by simp
  have two: "drawImage (Num 0) (Num 0) (Num 8) (Num 8) (Num 40000) (Num 20) (Num 8) (Num 8)
         Undefined Undefined (oneSlot\<lparr>draws := 1\<rparr>)
       = Inr (oneSlot\<lparr>draws := 2\<rparr>)"
    using drawImage_wraps [OF h', of "Num 0" "Num 0" "Num 8" "Num 8" "Num 40000" "Num 20"
        "Num 8" "Num 8" Undefined Undefined] full
    by auto
  from h(1,2) free one h'(1) full two show ?thesis
    by (intro conjI)
qed

subsection \<open>C9: the default tint and rotation\<close>

text \<open>
  C9, as stated, fails: the all-zero tint can be stored. The tint arguments \<open>2 ^ 32\<close>
  and \<open>1 / 2\<close> are truthy, so they are not replaced by the default, and the store into
  the Uint32 view truncates them and reduces them modulo \<open>2 ^ 32\<close>, to 0.
\<close>

theorem drawImage_zero_tint_counterexample:
  "truthy (Num 4294967296)
   \<and> tintAfter 0 (drawImage (Num 0) (Num 0) (Num 8) (Num 8) (Num 10) (Num 20) (Num 8) (Num 8)
        (Num 4294967296) Undefined oneSlot) = Some 0
   \<and> truthy (Num (1 / 2))
   \<and> tintAfter 0 (drawImage (Num 0) (Num 0) (Num 8) (Num 8) (Num 10) (Num 20) (Num 8) (Num 8)
        (Num (1 / 2)) Undefined oneSlot) = Some 0"
  by (simp add: tintAfter_oneSlot js_or_def js_trunc_def)

text \<open>
  C9, amended: in a draw with a free slot, a tint that is omitted or 0 is stored as the
  default \<^verbatim>\<open>0xFFFFFF7F\<close>, the bytes a = 127, b = g = r = 255; a tint that is an integer
  from 1 to \<open>2 ^ 32 - 1\<close> is stored as it is, which is not zero; the all-zero tint is
  stored exactly when the tint argument is an infinity or a finite number other than 0
  whose truncation towards zero is a multiple of \<open>2 ^ 32\<close>, such as \<open>1 / 2\<close> or
  \<open>2 ^ 32\<close>; and a rotation that is omitted or 0 is stored as the float 0, four zero
  bytes.
\<close>

theorem drawImage_defaults:
  assumes "arrayBuffer s = Some buf" "length buf = maxDraws s * bytesPerImage"
    and "draws s < maxDraws s"
  shows "\<exists>buf'.
     drawImage texPartX texPartY texPartSizeX texPartSizeY drawX drawY sizeX sizeY rgba rotation s
       = Inr (s\<lparr>arrayBuffer := Some buf', draws := draws s + 1\<rparr>)
     \<and> (rgba = Undefined \<or> rgba = Num 0 \<longrightarrow>
          getUint32 (draws s * 6 + 4) buf' = 0xFFFFFF7F
          \<and> take 4 (drop (draws s * 24 + 16) buf') = [127, 255, 255, 255])
     \<and> (\<forall>n. rgba = Num (real n) \<and> 0 < n \<and> n < 2 ^ 32 \<longrightarrow>
          getUint32 (draws s * 6 + 4) buf' = of_nat n \<and> getUint32 (draws s * 6 + 4) buf' \<noteq> 0)
     \<and> (getUint32 (draws s * 6 + 4) buf' = 0 \<longleftrightarrow>
          rgba = PosInf \<or> rgba = NegInf
          \<or> (\<exists>x. rgba = Num x \<and> x \<noteq> 0 \<and> 2 ^ 32 dvd js_trunc x))
     \<and> (rotation = Undefined \<or> rotation = Num 0 \<longrightarrow>
          getUint32 (draws s * 6 + 5) buf' = 0
          \<and> take 4 (drop (draws s * 24 + 20) buf') = [0, 0, 0, 0])"
proof -
  from drawImage_stores [OF assms] obtain buf' where
    run: "drawImage texPartX texPartY texPartSizeX texPartSizeY drawX drawY sizeX sizeY rgba rotation s
       = Inr (s\<lparr>arrayBuffer := Some buf', draws := draws s + 1\<rparr>)"
    and rec: "slot (draws s) buf' =
       recordOf texPartX texPartY texPartSizeX texPartSizeY drawX drawY sizeX sizeY rgba rotation"
    by blast
  note reads = slot_record_reads [OF rec [unfolded recordOf_def]]
  have tint: "getUint32 (draws s * 6 + 4) buf' = toUint32 (js_or rgba (Num 0xFFFFFF7F))"
    by (rule reads(9))
  have rot: "getUint32 (draws s * 6 + 5) buf' = toFloat32 (js_or rotation (Num 0))"
    by (rule reads(10))
  have tbytes: "take 4 (drop (draws s * 24 + 16) buf') = le32 (toUint32 (js_or rgba (Num 0xFFFFFF7F)))"
    using take_drop_slot [of 4 16 "draws s" buf']
    by (simp add: rec recordOf_def spec_record_alt)
  have rbytes: "take 4 (drop (draws s * 24 + 20) buf') = le32 (toFloat32 (js_or rotation (Num 0)))"
    using take_drop_slot [of 4 20 "draws s" buf']
    by (simp add: rec recordOf_def spec_record_alt)
  have d: "toUint32 (js_or rgba (Num 0xFFFFFF7F)) = 0xFFFFFF7F" if "rgba = Undefined \<or> rgba = Num 0"
    using that by (auto simp: js_or_def js_trunc_def)
  have z: "toFloat32 (js_or rotation (Num 0)) = 0" if "rotation = Undefined \<or> rotation = Num 0"
    using that by (auto simp: js_or_def float32_bits_def float32_magnitude_def)
  have n: "toUint32 (js_or rgba (Num 0xFFFFFF7F)) = of_nat n \<and> (of_nat n :: 32 word) \<noteq> 0"
    if "rgba = Num (real n)" "0 < n" "n < 2 ^ 32" for n
    using that of_nat_neq_0 [of n, where 'a = 32] by (simp add: js_or_def js_trunc_def)
  have A: "getUint32 (draws s * 6 + 4) buf' = 0xFFFFFF7F
          \<and> take 4 (drop (draws s * 24 + 16) buf') = [127, 255, 255, 255]"
    if "rgba = Undefined \<or> rgba = Num 0"
    using d [OF that] by (simp add: tint tbytes le32_def)
  have B: "getUint32 (draws s * 6 + 4) buf' = of_nat n \<and> getUint32 (draws s * 6 + 4) buf' \<noteq> 0"
    if "rgba = Num (real n) \<and> 0 < n \<and> n < 2 ^ 32" for n
    using n [of n] that by (simp add: tint)
  have C: "getUint32 (draws s * 6 + 5) buf' = 0
          \<and> take 4 (drop (draws s * 24 + 20) buf') = [0, 0, 0, 0]"
    if "rotation = Undefined \<or> rotation = Num 0"
    using z [OF that] by (simp add: rot rbytes le32_def)
  have A': "rgba = Undefined \<or> rgba = Num 0 \<longrightarrow>
          getUint32 (draws s * 6 + 4) buf' = 0xFFFFFF7F
          \<and> take 4 (drop (draws s * 24 + 16) buf') = [127, 255, 255, 255]"
    by (rule impI) (rule A)
  have B': "\<forall>n. rgba = Num (real n) \<and> 0 < n \<and> n < 2 ^ 32 \<longrightarrow>
          getUint32 (draws s * 6 + 4) buf' = of_nat n \<and> getUint32 (draws s * 6 + 4) buf' \<noteq> 0"
    by (intro allI impI) (rule B)
  have C': "rotation = Undefined \<or> rotation = Num 0 \<longrightarrow>
          getUint32 (draws s * 6 + 5) buf' = 0
          \<and> take 4 (drop (draws s * 24 + 20) buf') = [0, 0, 0, 0]"
    by (rule impI) (rule C)
  have Z: "getUint32 (draws s * 6 + 4) buf' = 0 \<longleftrightarrow>
          rgba = PosInf \<or> rgba = NegInf
          \<or> (\<exists>x. rgba = Num x \<and> x \<noteq> 0 \<and> 2 ^ 32 dvd js_trunc x)"
    by (simp only: tint toUint32_zero_iff)
  show ?thesis
    by (rule exI [of _ buf'])
      (rule conjI [OF run conjI [OF A' conjI [OF B' conjI [OF Z C']]]])
qed

text \<open>
  The witness for C9: one draw with tint and rotation omitted, one with the tint
  \<^verbatim>\<open>0x00FF007F\<close> (16711807) and the rotation 0, and one with the tint \<open>1 / 2\<close>.
\<close>

theorem drawImage_defaults_witness:
  "arrayBuffer oneSlot = Some (replicate 24 0)
   \<and> length (replicate 24 (0 :: byte)) = maxDraws oneSlot * bytesPerImage
   \<and> draws oneSlot < maxDraws oneSlot
   \<and> (\<exists>buf'.
     drawImage (Num 0) (Num 0) (Num 8) (Num 8) (Num 10) (Num 20) (Num 8) (Num 8)
         Undefined Undefined oneSlot
       = Inr (oneSlot\<lparr>arrayBuffer := Some buf', draws := draws oneSlot + 1\<rparr>)
     \<and> getUint32 (draws oneSlot * 6 + 4) buf' = 0xFFFFFF7F
     \<and> take 4 (drop (draws oneSlot * 24 + 16) buf') = [127, 255, 255, 255]
     \<and> getUint32 (draws oneSlot * 6 + 5) buf' = 0
     \<and> take 4 (drop (draws oneSlot * 24 + 20) buf') = [0, 0, 0, 0])
   \<and> (\<exists>buf'.
     drawImage (Num 0) (Num 0) (Num 8) (Num 8) (Num 10) (Num 20) (Num 8) (Num 8)
         (Num (real 16711807)) (Num 0) oneSlot
       = Inr (oneSlot\<lparr>arrayBuffer := Some buf', draws := draws oneSlot + 1\<rparr>)
     \<and> getUint32 (draws oneSlot * 6 + 4) buf' = of_nat 16711807
     \<and> getUint32 (draws oneSlot * 6 + 4) buf' \<noteq> 0
     \<and> getUint32 (draws oneSlot * 6 + 5) buf' = 0)
   \<and> (\<exists>buf'.
     drawImage (Num 0) (Num 0) (Num 8) (Num 8) (Num 10) (Num 20) (Num 8) (Num 8)
         (Num (1 / 2)) Undefined oneSlot
       = Inr (oneSlot\<lparr>arrayBuffer := Some buf', draws := draws oneSlot + 1\<rparr>)
     \<and> getUint32 (draws oneSlot * 6 + 4) buf' = 0)"
proof -
  have h: "arrayBuffer oneSlot = Some (replicate 24 0)"
    "length (replicate 24 (0 :: byte)) = maxDraws oneSlot * bytesPerImage"
    "draws oneSlot < maxDraws oneSlot"
    by (simp_all add: bytesPerImage_24)
  have k: "(0 :: nat) < 16711807 \<and> (16711807 :: nat) < 2 ^ 32"
    by simp
  have z: "\<exists>x. Num (1 / 2) = Num x \<and> x \<noteq> 0 \<and> 2 ^ 32 dvd js_trunc x"
    by (rule exI [of _ "1 / 2"]) (simp add: js_trunc_def)
  from drawImage_defaults [OF h, of "Num 0" "Num 0" "Num 8" "Num 8" "Num 10" "Num 20" "Num 8"
      "Num 8" Undefined Undefined]
  have one: "\<exists>buf'.
     drawImage (Num 0) (Num 0) (Num 8) (Num 8) (Num 10) (Num 20) (Num 8) (Num 8)
         Undefined Undefined oneSlot
       = Inr (oneSlot\<lparr>arrayBuffer := Some buf', draws := draws oneSlot + 1\<rparr>)
     \<and> getUint32 (draws oneSlot * 6 + 4) buf' = 0xFFFFFF7F
     \<and> take 4 (drop (draws oneSlot * 24 + 16) buf') = [127, 255, 255, 255]
     \<and> getUint32 (draws oneSlot * 6 + 5) buf' = 0
     \<and> take 4 (drop (draws oneSlot * 24 + 20) buf') = [0, 0, 0, 0]"
    by blast
  from drawImage_defaults [OF h, of "Num 0" "Num 0" "Num 8" "Num 8" "Num 10" "Num 20" "Num 8"
      "Num 8" "Num (real 16711807)" "Num 0"] k
  have two: "\<exists>buf'.
     drawImage (Num 0) (Num 0) (Num 8) (Num 8) (Num 10) (Num 20) (Num 8) (Num 8)
         (Num (real 16711807)) (Num 0) oneSlot
       = Inr (oneSlot\<lparr>arrayBuffer := Some buf', draws := draws oneSlot + 1\<rparr>)
     \<and> getUint32 (draws oneSlot * 6 + 4) buf' = of_nat 16711807
     \<and> getUint32 (draws oneSlot * 6 + 4) buf' \<noteq> 0
     \<and> getUint32 (draws oneSlot * 6 + 5) buf' = 0"
    by blast
  from drawImage_defaults [OF h, of "Num 0" "Num 0" "Num 8" "Num 8" "Num 10" "Num 20" "Num 8"
      "Num 8" "Num (1 / 2)" Undefined] z
  have three: "\<exists>buf'.
     drawImage (Num 0) (Num 0) (Num 8) (Num 8) (Num 10) (Num 20) (Num 8) (Num 8)
         (Num (1 / 2)) Undefined oneSlot
       = Inr (oneSlot\<lparr>arrayBuffer := Some buf', draws := draws oneSlot + 1\<rparr>)
     \<and> getUint32 (draws oneSlot * 6 + 4) buf' = 0"
    by blast
  from h one two three show ?thesis
    by (intro conjI)
qed

subsection \<open>C4: the tint decode\<close>

text \<open>
  C4: for all tint bytes \<open>a\<close>, \<open>b\<close>, \<open>g\<close>, \<open>r\<close>, fetched as the unnormalized attribute
  \<^verbatim>\<open>aRgba = (a, b, g, r)\<close>, the tint the vertex shader hands to the fragment stage is
  the decode of the specification: for \<open>a \<le> 127\<close> the colour \<open>(r / 255, g / 255, b / 255)\<close>
  with opacity \<open>a / 127\<close>, for \<open>a > 127\<close> the colour \<open>(r, g, b)\<close> times
  \<open>2 ^ ((a - 127) / 16) / 255\<close> with opacity 1. In particular \<open>a = 127\<close> with white gives
  \<open>(1, 1, 1)\<close> at opacity 1; \<open>a = 0\<close> with red gives opacity 0; \<open>a = 143\<close> with white has
  the multiplier \<open>2 / 255\<close> and gives \<open>(2, 2, 2)\<close> at opacity 1, brighter than the white
  tint at \<open>a = 127\<close>. The arithmetic is over the real numbers.
\<close>

theorem tint_decode:
  "fragAbgr (vertMain u (att\<lparr>aRgba := (real (unat a), real (unat b), real (unat g), real (unat r))\<rparr>))
     = (case spec_tint (unat a) (unat b) (unat g) (unat r) of
          ((cr, cg, cb), opacity) \<Rightarrow> (cr, cg, cb, opacity))
   \<and> fragAbgr (vertMain u (att\<lparr>aRgba := (127, 255, 255, 255)\<rparr>)) = (1, 1, 1, 1)
   \<and> fragAbgr (vertMain u (att\<lparr>aRgba := (0, 0, 0, 255)\<rparr>)) = (1, 0, 0, 0)
   \<and> 2 powr ((143 - 127) / 16) / 255 = (2 / 255 :: real)
   \<and> fragAbgr (vertMain u (att\<lparr>aRgba := (143, 255, 255, 255)\<rparr>)) = (2, 2, 2, 1)"
proof -
  have "(127 :: real) < real (unat a) \<longleftrightarrow> \<not> unat a \<le> 127"
    by (metis of_nat_less_iff of_nat_numeral not_le)
  then show ?thesis
    by (simp add: vertMain_def tintOf_def spec_tint_def Let_def del: of_nat_unat
        split: prod.splits)
qed

subsection \<open>C5: corners without rotation\<close>

text \<open>
  C5: for every sprite whose rotation attribute is 0, the screen positions of the four
  corners are \<open>aPos + aSize * m\<close> for the four corner multipliers \<open>m\<close> given in
  \<^verbatim>\<open>setup\<close>, which are \<open>(0, 0)\<close>, \<open>(0, 1)\<close>, \<open>(1, 0)\<close>, \<open>(1, 1)\<close>: no sine or cosine
  enters. The arithmetic is over the real numbers.
\<close>

theorem unrotated_corners:
  assumes "aRotation a = 0"
  shows "corners a =
       map (\<lambda>(mx, my). (fst (aPos a) + fst (aSize a) * mx, snd (aPos a) + snd (aSize a) * my))
         [(0, 0), (0, 1), (1, 0), (1, 1)]
     \<and> cornerMults = [(0, 0), (0, 1), (1, 0), (1, 1)]"
  using assms by (simp add: corners_def cornerMults_eq drawPos_def split: prod.splits)

text \<open>The witness for C5: position \<open>(10, 20)\<close> and size \<open>(8, 4)\<close>.\<close>

theorem unrotated_corners_witness:
  "aRotation \<lparr>aSizeMult = (0, 0), aPos = (10, 20), aSize = (8, 4), aTexPos = (0, 0, 8, 8),
       aRgba = (127, 255, 255, 255), aRotation = 0\<rparr> = 0
   \<and> corners \<lparr>aSizeMult = (0, 0), aPos = (10, 20), aSize = (8, 4), aTexPos = (0, 0, 8, 8),
       aRgba = (127, 255, 255, 255), aRotation = 0\<rparr>
     = [(10, 20), (10, 24), (18, 20), (18, 24)]"
  using unrotated_corners [of "\<lparr>aSizeMult = (0, 0), aPos = (10, 20), aSize = (8, 4),
       aTexPos = (0, 0, 8, 8), aRgba = (127, 255, 255, 255), aRotation = 0\<rparr>"]
  by simp

subsection \<open>C6: rotation about the centre\<close>

text \<open>
  C6: for every sprite whose rotation attribute is not 0, each corner is the offset
  \<open>aSize * (m - 1 / 2)\<close> rotated by the angle and moved by \<open>aPos + aSize / 2\<close>, and the
  mean of the four corners is \<open>aPos + aSize / 2\<close>: the sprite turns about its own
  centre. The arithmetic is over the real numbers.
\<close>

theorem rotated_centre:
  assumes "aRotation a \<noteq> 0"
  shows "corners a =
       map (\<lambda>(mx, my).
           (fst (aPos a)
              + (cos (aRotation a) * (fst (aSize a) * (mx - 1 / 2))
                  - sin (aRotation a) * (snd (aSize a) * (my - 1 / 2)))
              + fst (aSize a) / 2,
            snd (aPos a)
              + (sin (aRotation a) * (fst (aSize a) * (mx - 1 / 2))
                  + cos (aRotation a) * (snd (aSize a) * (my - 1 / 2)))
              + snd (aSize a) / 2))
         [(0, 0), (0, 1), (1, 0), (1, 1)]
     \<and> centre (corners a) = (fst (aPos a) + fst (aSize a) / 2, snd (aPos a) + snd (aSize a) / 2)"
  using assms
  by (simp add: corners_def cornerMults_eq drawPos_def centre_def Let_def split: prod.splits)

text \<open>
  The witness for C6: position \<open>(10, 20)\<close>, size \<open>(8, 4)\<close>, a quarter turn; the centre
  is \<open>(14, 22)\<close>.
\<close>

theorem rotated_centre_witness:
  "aRotation \<lparr>aSizeMult = (0, 0), aPos = (10, 20), aSize = (8, 4), aTexPos = (0, 0, 8, 8),
       aRgba = (127, 255, 255, 255), aRotation = pi / 2\<rparr> \<noteq> 0
   \<and> corners \<lparr>aSizeMult = (0, 0), aPos = (10, 20), aSize = (8, 4), aTexPos = (0, 0, 8, 8),
       aRgba = (127, 255, 255, 255), aRotation = pi / 2\<rparr>
     = [(16, 18), (12, 18), (16, 26), (12, 26)]
   \<and> centre (corners \<lparr>aSizeMult = (0, 0), aPos = (10, 20), aSize = (8, 4), aTexPos = (0, 0, 8, 8),
       aRgba = (127, 255, 255, 255), aRotation = pi / 2\<rparr>) = (14, 22)"
  using rotated_centre [of "\<lparr>aSizeMult = (0, 0), aPos = (10, 20), aSize = (8, 4),
       aTexPos = (0, 0, 8, 8), aRgba = (127, 255, 255, 255), aRotation = pi / 2\<rparr>"]
  by (simp add: centre_def)

end
